theory Spec2Isabelle
  imports Complex_Main
begin

section \<open>Data model\<close>

text \<open>
  The three source files are \<^verbatim>\<open>face-targating.js\<close> (classes \<^verbatim>\<open>FaceTracker\<close> and
  \<^verbatim>\<open>LandmarkUtils\<close>), \<^verbatim>\<open>glasses-models.js\<close> (class \<^verbatim>\<open>GlassesRenderer\<close>) and the
  application file (class \<^verbatim>\<open>VirtualTryOnApp\<close>).

  Numbers. A JavaScript number is an IEEE double; here it is a \<^typ>\<open>real\<close>. So the
  arithmetic below is the exact arithmetic the source's formulas denote: rounding,
  infinities and NaN are not represented. The one exception is the blend of the
  smoother, which is also modelled with its four operations rounded to binary64
  (\<open>smoothLandmarks_double\<close>). Where the source divides by zero it gets an
  infinity or NaN, which \<open>x / 0 = 0\<close> of HOL is not: the claim on general inputs that
  divides by the canvas height assumes it is not zero.

  Objects. A landmark is an object with number fields \<^verbatim>\<open>x\<close>, \<^verbatim>\<open>y\<close> and a field
  \<^verbatim>\<open>z\<close> that may be missing (the source reads it as \<^verbatim>\<open>z || 0\<close>).

  Arrays. A landmark frame is a JavaScript array; an entry may be \<^verbatim>\<open>undefined\<close>
  (\<open>None\<close>), and reading an index at or beyond the length gives \<^verbatim>\<open>undefined\<close> as well.

  Errors. Reading a property of \<^verbatim>\<open>undefined\<close> or \<^verbatim>\<open>null\<close> throws a
  \<^verbatim>\<open>TypeError\<close>; every function that can do so returns a sum, \<open>Inl\<close> the error.
\<close>

datatype js_error = TypeError

record landmark =
  lm_x :: real
  lm_y :: real
  lm_z :: "real option"

type_synonym frame = "landmark option list"

definition at_index :: "'a option list \<Rightarrow> nat \<Rightarrow> 'a option" where
  \<comment> \<open>\<^verbatim>\<open>arr[i]\<close>\<close>
  "at_index arr i = (if i < length arr then arr ! i else None)"

definition or_zero :: "real option \<Rightarrow> real" where
  \<comment> \<open>\<^verbatim>\<open>(v || 0)\<close> on a number that may be missing; \<^verbatim>\<open>0 || 0\<close> is \<^verbatim>\<open>0\<close>\<close>
  "or_zero v = (case v of None \<Rightarrow> 0 | Some r \<Rightarrow> r)"

definition all_present :: "'a option list \<Rightarrow> bool" where
  \<comment> \<open>every entry of the array is an object\<close>
  "all_present arr = list_all (\<lambda>e. e \<noteq> None) arr"

section \<open>\<^verbatim>\<open>LandmarkUtils.smoothLandmarks\<close>\<close>

text \<open>
  \<^verbatim>\<open>
  static smoothLandmarks(currentLandmarks, previousLandmarks, smoothingFactor = 0.7) {
      if (!previousLandmarks) return currentLandmarks;
      const smoothed = [];
      for (let i = 0; i < currentLandmarks.length; i++) {
          const current = currentLandmarks[i];
          const previous = previousLandmarks[i];
          if (previous) {
              smoothed.push({
                  x: previous.x * smoothingFactor + current.x * (1 - smoothingFactor),
                  y: previous.y * smoothingFactor + current.y * (1 - smoothingFactor),
                  z: (previous.z || 0) * smoothingFactor + (current.z || 0) * (1 - smoothingFactor)
              });
          } else {
              smoothed.push(current);
          }
      }
      return smoothed;
  }
  \<close>
  The object pushed in the first branch; \<^verbatim>\<open>current.x\<close> throws when \<^verbatim>\<open>current\<close> is
  \<^verbatim>\<open>undefined\<close>, which is the \<open>None\<close> case of \<open>smooth_loop\<close> below.
\<close>

definition blend :: "landmark \<Rightarrow> landmark \<Rightarrow> real \<Rightarrow> landmark" where
  "blend previous current smoothingFactor =
     \<lparr> lm_x = lm_x previous * smoothingFactor + lm_x current * (1 - smoothingFactor),
       lm_y = lm_y previous * smoothingFactor + lm_y current * (1 - smoothingFactor),
       lm_z = Some (or_zero (lm_z previous) * smoothingFactor
                    + or_zero (lm_z current) * (1 - smoothingFactor)) \<rparr>"

function smooth_loop :: "frame \<Rightarrow> frame \<Rightarrow> real \<Rightarrow> nat \<Rightarrow> frame \<Rightarrow> js_error + frame" where
  "smooth_loop currentLandmarks previousLandmarks smoothingFactor i smoothed =
     (if i < length currentLandmarks then
        (case at_index previousLandmarks i of
           Some previous \<Rightarrow>
             (case currentLandmarks ! i of
                None \<Rightarrow> Inl TypeError
              | Some current \<Rightarrow>
                  smooth_loop currentLandmarks previousLandmarks smoothingFactor (i + 1)
                    (smoothed @ [Some (blend previous current smoothingFactor)]))
         | None \<Rightarrow>
             smooth_loop currentLandmarks previousLandmarks smoothingFactor (i + 1)
               (smoothed @ [currentLandmarks ! i]))
      else Inr smoothed)"
  by pat_completeness auto
termination
  by (relation "measure (\<lambda>(c, p, a, i, s). length c - i)") auto

definition smoothLandmarks :: "frame \<Rightarrow> frame option \<Rightarrow> real option \<Rightarrow> js_error + frame" where
  \<comment> \<open>the third argument is \<open>None\<close> when the caller leaves it out: the default 0.7 applies\<close>
  "smoothLandmarks currentLandmarks previousLandmarks smoothingFactor =
     (case previousLandmarks of
        None \<Rightarrow> Inr currentLandmarks
      | Some prev \<Rightarrow>
          smooth_loop currentLandmarks prev
            (case smoothingFactor of None \<Rightarrow> 0.7 | Some a \<Rightarrow> a) 0 [])"


subsection \<open>The same method in binary64 arithmetic\<close>

text \<open>
  The blend is the one place where a claim depends on how the result is rounded, so the
  method is given a second time with every arithmetic operation rounded as the source's
  numbers are: to the nearest binary64 value, ties to the even significand.

  \<open>round_double x\<close> is that rounding of a real \<open>x\<close>. With \<open>e\<close> the exponent of \<open>x\<close>
  (\<open>2^e \<le> |x| < 2^(e+1)\<close>), and not below \<open>-1022\<close> where the subnormal range begins,
  the binary64 values around \<open>x\<close> are the multiples of \<open>2^(e-52)\<close>, and \<open>rne\<close> picks the nearest
  multiple. \<open>is_double x\<close>: \<open>x\<close> is a finite binary64 value. Overflow to an infinity
  (a magnitude of \<open>2^1024\<close> or more), NaN and the sign of zero are not represented.

  JavaScript evaluates \<^verbatim>\<open>previous.x * smoothingFactor + current.x * (1 - smoothingFactor)\<close>
  as four operations, each rounded: the product on the left, the difference, the
  product on the right, the sum. The literal \<^verbatim>\<open>0.7\<close> is the binary64 value nearest to
  7/10.
\<close>

definition pow2 :: "int \<Rightarrow> real" where
  "pow2 e = (if 0 \<le> e then 2 ^ nat e else 1 / 2 ^ nat (- e))"

definition rne :: "real \<Rightarrow> int" where
  "rne y =
     (let n = \<lfloor>y\<rfloor>; r = y - of_int n
      in if r < 1/2 then n else if 1/2 < r then n + 1 else if even n then n else n + 1)"

definition round_double :: "real \<Rightarrow> real" where
  "round_double x =
     (if x = 0 then 0
      else (let e = max \<lfloor>log 2 \<bar>x\<bar>\<rfloor> (- 1022)
            in of_int (rne (x / pow2 (e - 52))) * pow2 (e - 52)))"

definition is_double :: "real \<Rightarrow> bool" where
  "is_double x \<longleftrightarrow> round_double x = x \<and> \<bar>x\<bar> < pow2 1024"

definition double_landmark :: "landmark \<Rightarrow> bool" where
  \<comment> \<open>the coordinates are finite binary64 values; a missing z is read as 0\<close>
  "double_landmark l \<longleftrightarrow>
     is_double (lm_x l) \<and> is_double (lm_y l) \<and> is_double (or_zero (lm_z l))"

definition blend_double :: "landmark \<Rightarrow> landmark \<Rightarrow> real \<Rightarrow> landmark" where
  "blend_double previous current smoothingFactor =
     \<lparr> lm_x = round_double (round_double (lm_x previous * smoothingFactor)
                            + round_double (lm_x current * round_double (1 - smoothingFactor))),
       lm_y = round_double (round_double (lm_y previous * smoothingFactor)
                            + round_double (lm_y current * round_double (1 - smoothingFactor))),
       lm_z = Some (round_double
                      (round_double (or_zero (lm_z previous) * smoothingFactor)
                       + round_double (or_zero (lm_z current) * round_double (1 - smoothingFactor)))) \<rparr>"

function smooth_loop_double :: "frame \<Rightarrow> frame \<Rightarrow> real \<Rightarrow> nat \<Rightarrow> frame \<Rightarrow> js_error + frame" where
  "smooth_loop_double currentLandmarks previousLandmarks smoothingFactor i smoothed =
     (if i < length currentLandmarks then
        (case at_index previousLandmarks i of
           Some previous \<Rightarrow>
             (case currentLandmarks ! i of
                None \<Rightarrow> Inl TypeError
              | Some current \<Rightarrow>
                  smooth_loop_double currentLandmarks previousLandmarks smoothingFactor (i + 1)
                    (smoothed @ [Some (blend_double previous current smoothingFactor)]))
         | None \<Rightarrow>
             smooth_loop_double currentLandmarks previousLandmarks smoothingFactor (i + 1)
               (smoothed @ [currentLandmarks ! i]))
      else Inr smoothed)"
  by pat_completeness auto
termination
  by (relation "measure (\<lambda>(c, p, a, i, s). length c - i)") auto

definition smoothLandmarks_double :: "frame \<Rightarrow> frame option \<Rightarrow> real option \<Rightarrow> js_error + frame" where
  "smoothLandmarks_double currentLandmarks previousLandmarks smoothingFactor =
     (case previousLandmarks of
        None \<Rightarrow> Inr currentLandmarks
      | Some prev \<Rightarrow>
          smooth_loop_double currentLandmarks prev
            (case smoothingFactor of None \<Rightarrow> round_double 0.7 | Some a \<Rightarrow> a) 0 [])"


section \<open>\<^verbatim>\<open>FaceTracker\<close>: the pose estimator\<close>

subsection \<open>\<^verbatim>\<open>calculateConfidence\<close>\<close>

text \<open>
  \<^verbatim>\<open>
  calculateConfidence(landmarks) {
      if (!landmarks || landmarks.length === 0) return 0;
      const keyIndices = [33, 263, 1, 9]; // Eyes, nose tip, nose bridge
      let validLandmarks = 0;
      for (const index of keyIndices) {
          const landmark = landmarks[index];
          if (landmark &&
              landmark.x >= 0 && landmark.x <= 1 &&
              landmark.y >= 0 && landmark.y <= 1) {
              validLandmarks++;
          }
      }
      return validLandmarks / keyIndices.length;
  }
  \<close>
\<close>

definition keyIndices :: "nat list" where
  "keyIndices = [33, 263, 1, 9]"

definition landmark_valid :: "frame \<Rightarrow> nat \<Rightarrow> bool" where
  \<comment> \<open>the condition of the \<^verbatim>\<open>if\<close> in the loop body\<close>
  "landmark_valid landmarks index =
     (case at_index landmarks index of
        None \<Rightarrow> False
      | Some landmark \<Rightarrow>
          lm_x landmark \<ge> 0 \<and> lm_x landmark \<le> 1 \<and> lm_y landmark \<ge> 0 \<and> lm_y landmark \<le> 1)"

fun count_valid :: "frame \<Rightarrow> nat list \<Rightarrow> nat \<Rightarrow> nat" where
  "count_valid landmarks [] validLandmarks = validLandmarks"
| "count_valid landmarks (index # rest) validLandmarks =
     count_valid landmarks rest
       (if landmark_valid landmarks index then validLandmarks + 1 else validLandmarks)"

definition calculateConfidence :: "frame option \<Rightarrow> real" where
  "calculateConfidence landmarks =
     (case landmarks of
        None \<Rightarrow> 0
      | Some ls \<Rightarrow>
          if length ls = 0 then 0
          else real (count_valid ls keyIndices 0) / real (length keyIndices))"

subsection \<open>\<^verbatim>\<open>calculateFaceRect\<close>\<close>

text \<open>
  \<^verbatim>\<open>
  calculateFaceRect(landmarks) {
      if (!landmarks || landmarks.length === 0) return null;
      let minX = 1, minY = 1, maxX = 0, maxY = 0;
      for (const landmark of landmarks) {
          minX = Math.min(minX, landmark.x);
          minY = Math.min(minY, landmark.y);
          maxX = Math.max(maxX, landmark.x);
          maxY = Math.max(maxY, landmark.y);
      }
      return { x: minX, y: minY, width: maxX - minX, height: maxY - minY,
               centerX: (minX + maxX) / 2, centerY: (minY + maxY) / 2 };
  }
  \<close>
  \<open>rect_scan\<close> is the loop, its accumulator \<open>(minX, minY, maxX, maxY)\<close>; the result of
  the function is \<open>None\<close> for \<^verbatim>\<open>null\<close>.
\<close>

record face_rect =
  rect_x :: real
  rect_y :: real
  rect_width :: real
  rect_height :: real
  rect_centerX :: real
  rect_centerY :: real

fun rect_scan :: "frame \<Rightarrow> real \<times> real \<times> real \<times> real \<Rightarrow> js_error + real \<times> real \<times> real \<times> real" where
  "rect_scan [] acc = Inr acc"
| "rect_scan (None # rest) acc = Inl TypeError"
| "rect_scan (Some landmark # rest) (minX, minY, maxX, maxY) =
     rect_scan rest (min minX (lm_x landmark), min minY (lm_y landmark),
                     max maxX (lm_x landmark), max maxY (lm_y landmark))"

definition calculateFaceRect :: "frame option \<Rightarrow> js_error + face_rect option" where
  "calculateFaceRect landmarks =
     (case landmarks of
        None \<Rightarrow> Inr None
      | Some ls \<Rightarrow>
          if length ls = 0 then Inr None
          else (case rect_scan ls (1, 1, 0, 0) of
                  Inl e \<Rightarrow> Inl e
                | Inr (minX, minY, maxX, maxY) \<Rightarrow>
                    Inr (Some \<lparr> rect_x = minX, rect_y = minY,
                                 rect_width = maxX - minX, rect_height = maxY - minY,
                                 rect_centerX = (minX + maxX) / 2,
                                 rect_centerY = (minY + maxY) / 2 \<rparr>)))"

subsection \<open>\<^verbatim>\<open>calculateHeadPose\<close>\<close>

text \<open>
  \<^verbatim>\<open>Math.atan2(y, x)\<close> is a built-in of the language, not code of the repository. On
  real arguments ECMAScript defines it as the angle of the point \<open>(x, y)\<close> in
  \<open>(-\<pi>, \<pi>]\<close>; at the origin (both arguments \<open>+0\<close>) it is \<open>0\<close>. Signed zeros are not
  represented.
\<close>

definition atan2 :: "real \<Rightarrow> real \<Rightarrow> real" where
  "atan2 y x =
     (if 0 < x then arctan (y / x)
      else if x < 0 then (if 0 \<le> y then arctan (y / x) + pi else arctan (y / x) - pi)
      else if 0 < y then pi / 2
      else if y < 0 then - pi / 2
      else 0)"

text \<open>
  \<^verbatim>\<open>
  calculateHeadPose(keyLandmarks) {
      if (!keyLandmarks.leftEyeCenter || !keyLandmarks.rightEyeCenter || !keyLandmarks.noseTip) {
          return { pitch: 0, yaw: 0, roll: 0 };
      }
      const leftEye = keyLandmarks.leftEyeCenter;
      const rightEye = keyLandmarks.rightEyeCenter;
      const nose = keyLandmarks.noseTip;
      const eyeDeltaX = rightEye.x - leftEye.x;
      const eyeDeltaY = rightEye.y - leftEye.y;
      const roll = Math.atan2(eyeDeltaY, eyeDeltaX);
      const eyeCenterX = (leftEye.x + rightEye.x) / 2;
      const noseOffsetX = nose.x - eyeCenterX;
      const yaw = Math.atan2(noseOffsetX, 0.1);
      const eyeCenterY = (leftEye.y + rightEye.y) / 2;
      const noseOffsetY = nose.y - eyeCenterY;
      const pitch = Math.atan2(noseOffsetY, 0.1);
      return { pitch: pitch, yaw: yaw, roll: roll };
  }
  \<close>
  Of the object \<^verbatim>\<open>processResults\<close> builds, only the three fields read here are kept
  (\<^verbatim>\<open>landmarks[159]\<close>, \<^verbatim>\<open>landmarks[386]\<close> and \<^verbatim>\<open>landmarks[1]\<close>).
\<close>

record keyLandmarks =
  leftEyeCenter :: "landmark option"
  rightEyeCenter :: "landmark option"
  noseTip :: "landmark option"

record head_pose =
  pitch :: real
  yaw :: real
  roll :: real

definition calculateHeadPose :: "keyLandmarks \<Rightarrow> head_pose" where
  "calculateHeadPose k =
     (case (leftEyeCenter k, rightEyeCenter k, noseTip k) of
        (Some leftEye, Some rightEye, Some nose) \<Rightarrow>
          (let eyeDeltaX = lm_x rightEye - lm_x leftEye;
               eyeDeltaY = lm_y rightEye - lm_y leftEye;
               roll' = atan2 eyeDeltaY eyeDeltaX;
               eyeCenterX = (lm_x leftEye + lm_x rightEye) / 2;
               noseOffsetX = lm_x nose - eyeCenterX;
               yaw' = atan2 noseOffsetX 0.1;
               eyeCenterY = (lm_y leftEye + lm_y rightEye) / 2;
               noseOffsetY = lm_y nose - eyeCenterY;
               pitch' = atan2 noseOffsetY 0.1
           in \<lparr> pitch = pitch', yaw = yaw', roll = roll' \<rparr>)
      | _ \<Rightarrow> \<lparr> pitch = 0, yaw = 0, roll = 0 \<rparr>)"

section \<open>\<^verbatim>\<open>GlassesRenderer\<close>: the overlay transform engine\<close>

text \<open>
  The renderer's state, as far as \<^verbatim>\<open>updateGlasses\<close> reads or writes it.
  \<^item> \<open>glassesModel\<close> is the three.js object (or \<^verbatim>\<open>null\<close>); of it the method writes
    \<^verbatim>\<open>position\<close>, \<^verbatim>\<open>rotation.z\<close>, \<^verbatim>\<open>scale\<close> and \<^verbatim>\<open>visible\<close>.
  \<^item> \<open>pngImage\<close> is the image element (or \<^verbatim>\<open>null\<close>), with its \<^verbatim>\<open>width\<close> and
    \<^verbatim>\<open>height\<close>.
  \<^item> \<open>canvas_calls\<close> is the sequence of calls made on the 2D context of
    \<^verbatim>\<open>this.canvas\<close>, oldest first. \<^verbatim>\<open>drawImage\<close> is always called with
    \<^verbatim>\<open>this.pngImage\<close>, so the call records the destination rectangle only.
    \<^verbatim>\<open>this.canvas\<close> is the canvas \<^verbatim>\<open>init\<close> stored, and \<^verbatim>\<open>getContext("2d")\<close> is taken
    to return its context.
  \<^item> \<open>scale\<close>, \<open>width\<close> and \<open>heightOffset\<close> are the overlay parameters, set by
    \<^verbatim>\<open>updateScale\<close>, \<^verbatim>\<open>updateWidth\<close> and \<^verbatim>\<open>updateHeightOffset\<close>.
\<close>

record model3d =
  position :: "real \<times> real \<times> real"
  rotation_z :: real
  model_scale :: "real \<times> real \<times> real"
  visible :: bool

record png_image =
  img_width :: real
  img_height :: real

datatype canvas_call =
    ClearRect real real real real
  | DrawImage real real real real

record GlassesRenderer =
  currentFrame :: string
  pngImage :: "png_image option"
  glassesModel :: "model3d option"
  scale :: real
  width :: real
  heightOffset :: real
  canvas_calls :: "canvas_call list"

text \<open>
  \<^verbatim>\<open>
  normalizedToWorld(landmark, canvasWidth, canvasHeight) {
      const aspect = canvasWidth / canvasHeight;
      const frustumSize = 2;
      return {
          x: (landmark.x - 0.5) * frustumSize * aspect,
          y: -(landmark.y - 0.5) * frustumSize,
          z: landmark.z || 0
      };
  }
  \<close>
\<close>

definition normalizedToWorld :: "landmark \<Rightarrow> real \<Rightarrow> real \<Rightarrow> landmark" where
  "normalizedToWorld landmark canvasWidth canvasHeight =
     (let aspect = canvasWidth / canvasHeight;
          frustumSize = 2
      in \<lparr> lm_x = (lm_x landmark - 0.5) * frustumSize * aspect,
           lm_y = - (lm_y landmark - 0.5) * frustumSize,
           lm_z = Some (or_zero (lm_z landmark)) \<rparr>)"

text \<open>
  \<^verbatim>\<open>
  updateGlasses(landmarks, canvasWidth, canvasHeight) {
      if (this.currentFrame === 'png' && this.pngImage) {
          const ctx = this.canvas.getContext("2d");
          ctx.clearRect(0, 0, canvasWidth, canvasHeight);
          const leftEye = landmarks[33];
          const rightEye = landmarks[263];
          if (!leftEye || !rightEye) return;
          const left = this.normalizedToWorld(leftEye, canvasWidth, canvasHeight);
          const right = this.normalizedToWorld(rightEye, canvasWidth, canvasHeight);
          const eyeDistance = Math.sqrt((right.x - left.x) ** 2 + (right.y - left.y) ** 2);
          const glassesWidth = eyeDistance * 2.5 * this.scale;
          const glassesHeight = (this.pngImage.height / this.pngImage.width) * glassesWidth;
          const centerX = (left.x + right.x) / 2 + canvasWidth / 2;
          const centerY = (left.y + right.y) / 2 + canvasHeight / 2;
          ctx.drawImage(this.pngImage, centerX - glassesWidth / 2, centerY - glassesHeight / 2,
                        glassesWidth, glassesHeight);
          return;
      }
      if (!this.glassesModel || !landmarks) return;
      const leftEye = landmarks[33];
      const rightEye = landmarks[263];
      if (!leftEye || !rightEye) return;
      const leftEyeWorld = this.normalizedToWorld(leftEye, canvasWidth, canvasHeight);
      const rightEyeWorld = this.normalizedToWorld(rightEye, canvasWidth, canvasHeight);
      const centerX = (leftEyeWorld.x + rightEyeWorld.x) / 2;
      const centerY = (leftEyeWorld.y + rightEyeWorld.y) / 2 + (this.heightOffset * 0.001);
      const eyeDistance = Math.abs(rightEyeWorld.x - leftEyeWorld.x);
      const baseScale = eyeDistance * 0.8;
      const finalScale = baseScale * this.scale * this.width;
      const angle = Math.atan2(rightEyeWorld.y - leftEyeWorld.y, rightEyeWorld.x - leftEyeWorld.x);
      this.glassesModel.position.set(centerX, centerY, 0);
      this.glassesModel.rotation.z = angle;
      this.glassesModel.scale.set(finalScale, finalScale, finalScale);
      this.glassesModel.visible = true;
  }
  \<close>
  The two paths are \<open>updateGlasses_png\<close> and \<open>updateGlasses_model\<close>. In the first,
  \<^verbatim>\<open>landmarks[33]\<close> is read with no guard on \<^verbatim>\<open>landmarks\<close>, after the canvas was
  cleared; in the second, \<^verbatim>\<open>!landmarks\<close> returns first.
\<close>

definition updateGlasses_png ::
  "GlassesRenderer \<Rightarrow> png_image \<Rightarrow> frame option \<Rightarrow> real \<Rightarrow> real \<Rightarrow> js_error + GlassesRenderer" where
  "updateGlasses_png this png landmarks canvasWidth canvasHeight =
     (let cleared = this\<lparr> canvas_calls :=
                      canvas_calls this @ [ClearRect 0 0 canvasWidth canvasHeight] \<rparr>
      in case landmarks of
           None \<Rightarrow> Inl TypeError
         | Some ls \<Rightarrow>
             (case (at_index ls 33, at_index ls 263) of
                (Some leftEye, Some rightEye) \<Rightarrow>
                  (let left = normalizedToWorld leftEye canvasWidth canvasHeight;
                       right = normalizedToWorld rightEye canvasWidth canvasHeight;
                       eyeDistance = sqrt ((lm_x right - lm_x left)\<^sup>2 + (lm_y right - lm_y left)\<^sup>2);
                       glassesWidth = eyeDistance * 2.5 * scale this;
                       glassesHeight = (img_height png / img_width png) * glassesWidth;
                       centerX = (lm_x left + lm_x right) / 2 + canvasWidth / 2;
                       centerY = (lm_y left + lm_y right) / 2 + canvasHeight / 2
                   in Inr (cleared\<lparr> canvas_calls :=
                             canvas_calls cleared @
                               [DrawImage (centerX - glassesWidth / 2) (centerY - glassesHeight / 2)
                                          glassesWidth glassesHeight] \<rparr>))
              | _ \<Rightarrow> Inr cleared))"

definition updateGlasses_model ::
  "GlassesRenderer \<Rightarrow> frame option \<Rightarrow> real \<Rightarrow> real \<Rightarrow> GlassesRenderer" where
  "updateGlasses_model this landmarks canvasWidth canvasHeight =
     (case (glassesModel this, landmarks) of
        (Some model, Some ls) \<Rightarrow>
          (case (at_index ls 33, at_index ls 263) of
             (Some leftEye, Some rightEye) \<Rightarrow>
               (let leftEyeWorld = normalizedToWorld leftEye canvasWidth canvasHeight;
                    rightEyeWorld = normalizedToWorld rightEye canvasWidth canvasHeight;
                    centerX = (lm_x leftEyeWorld + lm_x rightEyeWorld) / 2;
                    centerY = (lm_y leftEyeWorld + lm_y rightEyeWorld) / 2
                                + (heightOffset this * 0.001);
                    eyeDistance = \<bar>lm_x rightEyeWorld - lm_x leftEyeWorld\<bar>;
                    baseScale = eyeDistance * 0.8;
                    finalScale = baseScale * scale this * width this;
                    angle = atan2 (lm_y rightEyeWorld - lm_y leftEyeWorld)
                                  (lm_x rightEyeWorld - lm_x leftEyeWorld)
                in this\<lparr> glassesModel :=
                     Some (model\<lparr> position := (centerX, centerY, 0),
                                  rotation_z := angle,
                                  model_scale := (finalScale, finalScale, finalScale),
                                  visible := True \<rparr>) \<rparr>)
           | _ \<Rightarrow> this)
      | _ \<Rightarrow> this)"

definition updateGlasses ::
  "GlassesRenderer \<Rightarrow> frame option \<Rightarrow> real \<Rightarrow> real \<Rightarrow> js_error + GlassesRenderer" where
  "updateGlasses this landmarks canvasWidth canvasHeight =
     (case (currentFrame this = ''png'', pngImage this) of
        (True, Some png) \<Rightarrow> updateGlasses_png this png landmarks canvasWidth canvasHeight
      | _ \<Rightarrow> Inr (updateGlasses_model this landmarks canvasWidth canvasHeight))"

section \<open>\<^verbatim>\<open>VirtualTryOnApp.onFaceDetected\<close>\<close>

text \<open>
  \<^verbatim>\<open>
  onFaceDetected(results) {
      if (!results || !this.glassesRenderer) return;
      if (this.smoothingEnabled && this.previousLandmarks) {
          results.landmarks = LandmarkUtils.smoothLandmarks(
              results.landmarks, this.previousLandmarks, 0.7);
      }
      this.glassesRenderer.updateGlasses(
          results.landmarks, this.outputCanvas.width, this.outputCanvas.height);
      this.previousLandmarks = results.landmarks;
  }
  \<close>
  \<^verbatim>\<open>results\<close> is \<^verbatim>\<open>null\<close> (no face in this cycle) or the object built by
  \<^verbatim>\<open>processResults\<close>, of which only \<^verbatim>\<open>landmarks\<close> is read: the argument of the model
  is \<open>None\<close> or that frame.
\<close>

record VirtualTryOnApp =
  glassesRenderer :: "GlassesRenderer option"
  previousLandmarks :: "frame option"
  smoothingEnabled :: bool
  outputCanvas_width :: real
  outputCanvas_height :: real

definition onFaceDetected :: "VirtualTryOnApp \<Rightarrow> frame option \<Rightarrow> js_error + VirtualTryOnApp" where
  "onFaceDetected this results =
     (case (results, glassesRenderer this) of
        (Some landmarks, Some renderer) \<Rightarrow>
          (case (if smoothingEnabled this \<and> previousLandmarks this \<noteq> None
                 then smoothLandmarks landmarks (previousLandmarks this) (Some 0.7)
                 else Inr landmarks) of
             Inl e \<Rightarrow> Inl e
           | Inr landmarks' \<Rightarrow>
               (case updateGlasses renderer (Some landmarks')
                       (outputCanvas_width this) (outputCanvas_height this) of
                  Inl e \<Rightarrow> Inl e
                | Inr renderer' \<Rightarrow>
                    Inr (this\<lparr> glassesRenderer := Some renderer',
                               previousLandmarks := Some landmarks' \<rparr>)))
      | _ \<Rightarrow> Inr this)"

section \<open>Example inputs\<close>

text \<open>
  Inputs for the concrete evaluations below: a frame of 468 landmarks, all at the centre
  of the image except the two eye corners 33 and 263; a renderer on the 3D-model path
  with a model loaded, not yet placed; and a renderer on the PNG path with its image
  loaded and nothing drawn yet.
\<close>

definition example_frame :: "landmark \<Rightarrow> landmark \<Rightarrow> frame" where
  "example_frame leftEye rightEye =
     (replicate 468 (Some \<lparr> lm_x = 1/2, lm_y = 1/2, lm_z = Some 0 \<rparr>))
       [33 := Some leftEye, 263 := Some rightEye]"

definition example_model_renderer :: "real \<Rightarrow> real \<Rightarrow> real \<Rightarrow> GlassesRenderer" where
  "example_model_renderer s w offset =
     \<lparr> currentFrame = ''gltf'', pngImage = None,
       glassesModel = Some \<lparr> position = (0, 0, 0), rotation_z = 0,
                              model_scale = (3/20, 3/20, 3/20), visible = True \<rparr>,
       scale = s, width = w, heightOffset = offset, canvas_calls = [] \<rparr>"

definition example_png_renderer :: "real \<Rightarrow> png_image \<Rightarrow> GlassesRenderer" where
  "example_png_renderer s png =
     \<lparr> currentFrame = ''png'', pngImage = Some png, glassesModel = None,
       scale = s, width = 1, heightOffset = 0, canvas_calls = [] \<rparr>"

section \<open>The landmark smoother\<close>

declare smooth_loop.simps [simp del]

text \<open>What the loop pushes at index \<open>j\<close> when it does not throw there.\<close>

definition smooth_entry :: "frame \<Rightarrow> frame \<Rightarrow> real \<Rightarrow> nat \<Rightarrow> landmark option" where
  "smooth_entry cur prev a j =
     (case at_index prev j of
        Some p \<Rightarrow> Some (blend p (the (cur ! j)) a)
      | None \<Rightarrow> cur ! j)"

lemma smooth_loop_ok:
  "(\<And>j. i \<le> j \<Longrightarrow> j < length cur \<Longrightarrow> at_index prev j \<noteq> None \<Longrightarrow> cur ! j \<noteq> None)
   \<Longrightarrow> smooth_loop cur prev a i acc = Inr (acc @ map (smooth_entry cur prev a) [i..<length cur])"
proof (induction cur prev a i acc rule: smooth_loop.induct)
  case (1 cur prev a i acc)
  show ?case
  proof (cases "i < length cur")
    case False
    then show ?thesis by (simp add: smooth_loop.simps [of cur prev a i acc])
  next
    case True
    note lt = True
    have upt: "[i..<length cur] = i # [i + 1..<length cur]"
      using lt by (simp add: upt_conv_Cons)
    show ?thesis
    proof (cases "at_index prev i")
      case None
      have "smooth_loop cur prev a (i + 1) (acc @ [cur ! i])
            = Inr ((acc @ [cur ! i]) @ map (smooth_entry cur prev a) [i + 1..<length cur])"
        using "1.IH"(1) [OF lt None] "1.prems" by simp
      then show ?thesis
        using lt None upt by (simp add: smooth_loop.simps [of cur prev a i acc] smooth_entry_def)
    next
      case (Some p)
      then obtain c where c: "cur ! i = Some c"
        using "1.prems" [of i] lt by auto
      have "smooth_loop cur prev a (i + 1) (acc @ [Some (blend p c a)])
            = Inr ((acc @ [Some (blend p c a)]) @ map (smooth_entry cur prev a) [i + 1..<length cur])"
        using "1.IH"(2) [OF lt Some c] "1.prems" by simp
      then show ?thesis
        using lt Some c upt by (simp add: smooth_loop.simps [of cur prev a i acc] smooth_entry_def)
    qed
  qed
qed


lemma smoothLandmarks_Some:
  assumes "all_present cur"
  shows "smoothLandmarks cur (Some prev) a
         = Inr (map (smooth_entry cur prev (case a of None \<Rightarrow> 0.7 | Some v \<Rightarrow> v)) [0..<length cur])"
proof -
  have "\<And>j. j < length cur \<Longrightarrow> cur ! j \<noteq> None"
    using assms by (simp add: all_present_def list_all_length)
  then show ?thesis
    by (simp add: smoothLandmarks_def smooth_loop_ok)
qed

lemma smooth_entry_Some:
  "cur ! i = Some c \<Longrightarrow> at_index prev i = Some p \<Longrightarrow> smooth_entry cur prev a i = Some (blend p c a)"
  by (simp add: smooth_entry_def)

lemma smooth_entry_None:
  "at_index prev i = None \<Longrightarrow> smooth_entry cur prev a i = cur ! i"
  by (simp add: smooth_entry_def)

text \<open>
  Claim C3. \<^verbatim>\<open>smoothLandmarks(current, null)\<close> returns the current frame unchanged.
  With a previous frame, and a current frame whose entries are all landmark objects, the
  call returns an array whose entry at every index \<open>i\<close> where both frames have a
  landmark is \<open>previous[i] * \<alpha> + current[i] * (1 - \<alpha>)\<close> in each of x, y and z, where
  \<open>\<alpha>\<close> is the third argument, 0.7 when it is left out, and a missing z of either
  operand counts as 0.
\<close>

theorem C3_smoothLandmarks_blend:
  "smoothLandmarks cur None a = Inr cur \<and>
   (all_present cur \<longrightarrow>
     (\<exists>out. smoothLandmarks cur (Some prev) a = Inr out \<and>
        (\<forall>i c p. at_index cur i = Some c \<and> at_index prev i = Some p \<longrightarrow>
           out ! i =
             Some \<lparr> lm_x = lm_x p * (case a of None \<Rightarrow> 0.7 | Some v \<Rightarrow> v)
                          + lm_x c * (1 - (case a of None \<Rightarrow> 0.7 | Some v \<Rightarrow> v)),
                    lm_y = lm_y p * (case a of None \<Rightarrow> 0.7 | Some v \<Rightarrow> v)
                          + lm_y c * (1 - (case a of None \<Rightarrow> 0.7 | Some v \<Rightarrow> v)),
                    lm_z = Some (or_zero (lm_z p) * (case a of None \<Rightarrow> 0.7 | Some v \<Rightarrow> v)
                          + or_zero (lm_z c) * (1 - (case a of None \<Rightarrow> 0.7 | Some v \<Rightarrow> v))) \<rparr>)))"
proof (intro conjI impI)
  show "smoothLandmarks cur None a = Inr cur"
    by (simp add: smoothLandmarks_def)
next
  assume ap: "all_present cur"
  let ?al = "case a of None \<Rightarrow> 0.7 | Some v \<Rightarrow> v"
  let ?out = "map (smooth_entry cur prev ?al) [0..<length cur]"
  have eq: "smoothLandmarks cur (Some prev) a = Inr ?out"
    by (rule smoothLandmarks_Some [OF ap])
  have "\<forall>i c p. at_index cur i = Some c \<and> at_index prev i = Some p \<longrightarrow>
           ?out ! i = Some (blend p c ?al)"
  proof (intro allI impI)
    fix i c p
    assume h: "at_index cur i = Some c \<and> at_index prev i = Some p"
    then have lt: "i < length cur" and c: "cur ! i = Some c"
      by (auto simp: at_index_def split: if_splits)
    show "?out ! i = Some (blend p c ?al)"
      using lt c h by (simp add: smooth_entry_Some)
  qed
  then show "\<exists>out. smoothLandmarks cur (Some prev) a = Inr out \<and>
        (\<forall>i c p. at_index cur i = Some c \<and> at_index prev i = Some p \<longrightarrow>
           out ! i =
             Some \<lparr> lm_x = lm_x p * ?al + lm_x c * (1 - ?al),
                    lm_y = lm_y p * ?al + lm_y c * (1 - ?al),
                    lm_z = Some (or_zero (lm_z p) * ?al + or_zero (lm_z c) * (1 - ?al)) \<rparr>)"
    using eq unfolding blend_def by blast
qed

text \<open>
  One landmark without z blended with one that has z, default factor:
  \<open>x = 1 * 0.7 + 0.2 * 0.3\<close>, \<open>y = 0 * 0.7 + 0.4 * 0.3\<close>, \<open>z = 1 * 0.7 + 0 * 0.3\<close>.
\<close>

theorem C3_smoothLandmarks_blend_witness:
  "all_present [Some \<lparr> lm_x = 1/5, lm_y = 2/5, lm_z = None \<rparr>] \<and>
   (\<exists>out. smoothLandmarks [Some \<lparr> lm_x = 1/5, lm_y = 2/5, lm_z = None \<rparr>]
             (Some [Some \<lparr> lm_x = 1, lm_y = 0, lm_z = Some 1 \<rparr>]) None = Inr out \<and>
          out ! 0 = Some \<lparr> lm_x = 19/25, lm_y = 3/25, lm_z = Some (7/10) \<rparr>)"
proof -
  let ?c = "\<lparr> lm_x = 1/5, lm_y = 2/5, lm_z = None \<rparr>"
  let ?p = "\<lparr> lm_x = 1, lm_y = 0, lm_z = Some 1 \<rparr>"
  have ap: "all_present [Some ?c]"
    by (simp add: all_present_def)
  from C3_smoothLandmarks_blend [of "[Some ?c]" None "[Some ?p]"] ap
  obtain out where o: "smoothLandmarks [Some ?c] (Some [Some ?p]) None = Inr out"
    and ix: "\<forall>i c p. at_index [Some ?c] i = Some c \<and> at_index [Some ?p] i = Some p \<longrightarrow>
           out ! i = Some \<lparr> lm_x = lm_x p * 0.7 + lm_x c * (1 - 0.7),
                    lm_y = lm_y p * 0.7 + lm_y c * (1 - 0.7),
                    lm_z = Some (or_zero (lm_z p) * 0.7 + or_zero (lm_z c) * (1 - 0.7)) \<rparr>"
    by auto
  have "out ! 0 = Some \<lparr> lm_x = 19/25, lm_y = 3/25, lm_z = Some (7/10) \<rparr>"
    using ix [rule_format, of 0 ?c ?p] by (simp add: at_index_def or_zero_def)
  with ap o show ?thesis by blast
qed

text \<open>
  When the call throws: exactly when some current entry is \<^verbatim>\<open>undefined\<close> at an index
  where the previous frame has a landmark.
\<close>

lemma smooth_loop_throws:
  "\<exists>j. i \<le> j \<and> j < length cur \<and> cur ! j = None \<and> at_index prev j \<noteq> None
   \<Longrightarrow> smooth_loop cur prev a i acc = Inl TypeError"
proof (induction cur prev a i acc rule: smooth_loop.induct)
  case (1 cur prev a i acc)
  then obtain j where j: "i \<le> j" "j < length cur" "cur ! j = None" "at_index prev j \<noteq> None"
    by blast
  then have lt: "i < length cur"
    by simp
  show ?case
  proof (cases "j = i")
    case True
    then show ?thesis
      using j lt by (auto simp: smooth_loop.simps [of cur prev a i acc])
  next
    case False
    then have later: "\<exists>j. i + 1 \<le> j \<and> j < length cur \<and> cur ! j = None \<and> at_index prev j \<noteq> None"
      using j by (intro exI [of _ j]) simp
    show ?thesis
    proof (cases "at_index prev i")
      case None
      then show ?thesis
        using lt "1.IH"(1) [OF lt None later]
        by (simp add: smooth_loop.simps [of cur prev a i acc])
    next
      case (Some p)
      show ?thesis
      proof (cases "cur ! i")
        case None
        then show ?thesis
          using lt Some by (simp add: smooth_loop.simps [of cur prev a i acc])
      next
        case (Some c)
        then show ?thesis
          using lt \<open>at_index prev i = Some p\<close> "1.IH"(2) [OF lt \<open>at_index prev i = Some p\<close> Some later]
          by (simp add: smooth_loop.simps [of cur prev a i acc])
      qed
    qed
  qed
qed

lemma smoothLandmarks_unfold:
  "smoothLandmarks cur (Some prev) a
   = smooth_loop cur prev (case a of None \<Rightarrow> 0.7 | Some v \<Rightarrow> v) 0 []"
  by (simp add: smoothLandmarks_def)

lemma smoothLandmarks_throws_iff:
  "smoothLandmarks cur (Some prev) a = Inl TypeError
   \<longleftrightarrow> (\<exists>j < length cur. cur ! j = None \<and> at_index prev j \<noteq> None)"
proof
  assume thrown: "smoothLandmarks cur (Some prev) a = Inl TypeError"
  show "\<exists>j < length cur. cur ! j = None \<and> at_index prev j \<noteq> None"
  proof (rule ccontr)
    assume none: "\<not> (\<exists>j < length cur. cur ! j = None \<and> at_index prev j \<noteq> None)"
    have present: "cur ! j \<noteq> None" if "j < length cur" "at_index prev j \<noteq> None" for j
      using none that by auto
    have "smooth_loop cur prev (case a of None \<Rightarrow> 0.7 | Some v \<Rightarrow> v) 0 []
          = Inr ([] @ map (smooth_entry cur prev (case a of None \<Rightarrow> 0.7 | Some v \<Rightarrow> v)) [0..<length cur])"
      by (rule smooth_loop_ok) (rule present)
    then have "smoothLandmarks cur (Some prev) a
          = Inr ([] @ map (smooth_entry cur prev (case a of None \<Rightarrow> 0.7 | Some v \<Rightarrow> v)) [0..<length cur])"
      by (simp only: smoothLandmarks_unfold)
    then show False
      by (simp only: thrown sum.distinct)
  qed
next
  assume "\<exists>j < length cur. cur ! j = None \<and> at_index prev j \<noteq> None"
  then have "\<exists>j. 0 \<le> j \<and> j < length cur \<and> cur ! j = None \<and> at_index prev j \<noteq> None"
    by simp
  then have "smooth_loop cur prev (case a of None \<Rightarrow> 0.7 | Some v \<Rightarrow> v) 0 [] = Inl TypeError"
    by (rule smooth_loop_throws)
  then show "smoothLandmarks cur (Some prev) a = Inl TypeError"
    by (simp only: smoothLandmarks_unfold)
qed

text \<open>
  Claim C10. On a current frame whose entries are all landmark objects,
  \<^verbatim>\<open>smoothLandmarks\<close> returns (it does not throw) whatever the previous frame is:
  absent, shorter, longer, or with holes. The result has the current frame's length, and
  every index at which the previous frame has no landmark carries the current entry
  unchanged.
\<close>

theorem C10_smoothLandmarks_total:
  "all_present cur \<Longrightarrow>
   \<exists>out. smoothLandmarks cur prev a = Inr out \<and> length out = length cur \<and>
     (\<forall>i < length cur.
        (case prev of None \<Rightarrow> True | Some P \<Rightarrow> at_index P i = None) \<longrightarrow> out ! i = cur ! i)"
proof (cases prev)
  case None
  then show ?thesis by (simp add: smoothLandmarks_def)
next
  case (Some P)
  assume ap: "all_present cur"
  show ?thesis
    unfolding Some smoothLandmarks_Some [OF ap]
    by (simp add: smooth_entry_None)
qed

theorem C10_smoothLandmarks_total_witness:
  "all_present [Some \<lparr> lm_x = 1/5, lm_y = 2/5, lm_z = None \<rparr>,
                Some \<lparr> lm_x = 3/5, lm_y = 4/5, lm_z = Some 1 \<rparr>] \<and>
   (\<exists>out. smoothLandmarks [Some \<lparr> lm_x = 1/5, lm_y = 2/5, lm_z = None \<rparr>,
                            Some \<lparr> lm_x = 3/5, lm_y = 4/5, lm_z = Some 1 \<rparr>]
             (Some [Some \<lparr> lm_x = 1, lm_y = 0, lm_z = Some 1 \<rparr>]) None = Inr out \<and>
          length out = 2 \<and>
          out ! 1 = Some \<lparr> lm_x = 3/5, lm_y = 4/5, lm_z = Some 1 \<rparr>)"
proof -
  let ?cur = "[Some \<lparr> lm_x = 1/5, lm_y = 2/5, lm_z = None \<rparr>,
               Some \<lparr> lm_x = 3/5, lm_y = 4/5, lm_z = Some 1 \<rparr>]"
  let ?prev = "Some [Some \<lparr> lm_x = 1, lm_y = 0, lm_z = Some (1::real) \<rparr>]"
  have ap: "all_present ?cur"
    by (simp add: all_present_def)
  from C10_smoothLandmarks_total [OF ap, of ?prev None]
  obtain out where o: "smoothLandmarks ?cur ?prev None = Inr out"
    and len: "length out = length ?cur"
    and pass: "\<forall>i < length ?cur.
        (case ?prev of None \<Rightarrow> True | Some P \<Rightarrow> at_index P i = None) \<longrightarrow> out ! i = ?cur ! i"
    by blast
  have "out ! 1 = ?cur ! 1"
    using pass [rule_format, of 1] by (simp add: at_index_def)
  then have "out ! 1 = Some \<lparr> lm_x = 3/5, lm_y = 4/5, lm_z = Some 1 \<rparr>"
    by simp
  with ap o len show ?thesis by simp
qed

subsection \<open>Convexity and the extreme factors\<close>

lemma convex_between:
  fixes p c a :: real
  assumes "0 \<le> a" "a \<le> 1"
  shows "min c p \<le> p * a + c * (1 - a) \<and> p * a + c * (1 - a) \<le> max c p"
proof (cases "c \<le> p")
  case True
  have eq: "p * a + c * (1 - a) = c + a * (p - c)"
    by (simp add: algebra_simps)
  have nonneg: "0 \<le> a * (p - c)"
    using assms True by simp
  have "a * (p - c) \<le> 1 * (p - c)"
    using assms True by (intro mult_right_mono) simp_all
  then have le: "a * (p - c) \<le> p - c"
    by (simp only: mult_1)
  have "c \<le> c + a * (p - c)" and "c + a * (p - c) \<le> p"
    using nonneg le by linarith+
  then show ?thesis
    unfolding eq using True by (simp add: min_def max_def)
next
  case False
  have eq: "p * a + c * (1 - a) = c - a * (c - p)"
    by (simp add: algebra_simps)
  have nonneg: "0 \<le> a * (c - p)"
    using assms False by simp
  have "a * (c - p) \<le> 1 * (c - p)"
    using assms False by (intro mult_right_mono) simp_all
  then have le: "a * (c - p) \<le> c - p"
    by (simp only: mult_1)
  have "p \<le> c - a * (c - p)" and "c - a * (c - p) \<le> c"
    using nonneg le by linarith+
  then show ?thesis
    unfolding eq using False by (simp add: min_def max_def)
qed

lemma all_present_nth: "all_present xs \<Longrightarrow> i < length xs \<Longrightarrow> \<exists>v. xs ! i = Some v"
  by (simp add: all_present_def list_all_length)

subsection \<open>Rounding to binary64\<close>

declare smooth_loop_double.simps [simp del]

lemma pow2_powr: "pow2 e = 2 powr (of_int e)"
proof (cases "0 \<le> e")
  case True
  then have "2 powr (of_int e) = (2::real) powr (real (nat e))"
    by simp
  also have "\<dots> = 2 ^ nat e"
    by (rule powr_realpow) simp
  finally show ?thesis
    using True by (simp add: pow2_def)
next
  case False
  then have "(2::real) powr (of_int e) = 2 powr (- real (nat (- e)))"
    by simp
  also have "\<dots> = inverse (2 powr (real (nat (- e))))"
    by (rule powr_minus)
  also have "\<dots> = inverse (2 ^ nat (- e))"
    by (simp only: powr_realpow [of 2, simplified])
  finally show ?thesis
    using False by (simp add: pow2_def inverse_eq_divide)
qed

lemma pow2_pos: "0 < pow2 e"
  by (simp add: pow2_powr)

lemma pow2_mono: "e \<le> e' \<Longrightarrow> pow2 e \<le> pow2 e'"
  by (simp add: pow2_powr)

lemma rne_error: "\<bar>of_int (rne y) - y\<bar> \<le> 1 / 2"
proof -
  have lo: "of_int \<lfloor>y\<rfloor> \<le> y" and hi: "y < of_int \<lfloor>y\<rfloor> + 1"
    by linarith+
  show ?thesis
    unfolding rne_def Let_def using lo hi by (auto; linarith)
qed

text \<open>
  Evaluating \<open>round_double\<close>: once the exponent of \<open>x\<close> is known, the result is the
  nearest multiple of \<open>2^(e-52)\<close>.
\<close>

lemma round_double_eval:
  assumes "pow2 e \<le> \<bar>x\<bar>" and "\<bar>x\<bar> < pow2 (e + 1)" and "- 1022 \<le> e"
  shows "round_double x = of_int (rne (x / pow2 (e - 52))) * pow2 (e - 52)"
proof -
  have pos: "0 < \<bar>x\<bar>"
    using assms(1) pow2_pos [of e] by linarith
  have "\<lfloor>log 2 \<bar>x\<bar>\<rfloor> = e"
    using assms(1,2) pos by (simp add: floor_log_eq_powr_iff pow2_powr)
  then show ?thesis
    using pos assms(3) by (simp add: round_double_def Let_def max_def)
qed

text \<open>
  Below \<open>2^(k+1)\<close> in magnitude the spacing is at most \<open>2^(k-52)\<close>, the error at most
  half of it.
\<close>

lemma pow2_nat_shift: "pow2 (int k - 52) = 2 ^ k / 2 ^ 52"
proof -
  have "pow2 (int k - 52) = 2 powr (real k - 52)"
    by (simp add: pow2_powr)
  also have "\<dots> = 2 powr (real k) / 2 powr 52"
    by (rule powr_diff)
  also have "(2::real) powr (real k) = 2 ^ k"
    by (rule powr_realpow) simp
  also have "(2::real) powr 52 = 2 ^ 52"
    using powr_realpow [of 2 52] by simp
  finally show ?thesis .
qed

lemma round_double_error_scaled:
  assumes "\<bar>x\<bar> < 2 * 2 ^ k"
  shows "\<bar>round_double x - x\<bar> \<le> 2 ^ k / 2 ^ 53"
proof (cases "x = 0")
  case True
  then show ?thesis by (simp add: round_double_def)
next
  case False
  define e where "e = max \<lfloor>log 2 \<bar>x\<bar>\<rfloor> (- 1022)"
  define q where "q = pow2 (e - 52)"
  have "log 2 \<bar>x\<bar> < log 2 (2 * 2 ^ k)"
    using assms False by (subst log_less_cancel_iff) simp_all
  also have "log 2 (2 * 2 ^ k) = real k + 1"
  proof -
    have "(2::real) * 2 ^ k = 2 powr (real k + 1)"
      by (simp add: powr_add powr_realpow)
    then show ?thesis
      by (simp only: log_powr_cancel)
  qed
  finally have "\<lfloor>log 2 \<bar>x\<bar>\<rfloor> \<le> int k"
    by (simp add: floor_le_iff)
  then have e: "e \<le> int k"
    by (simp add: e_def)
  have qpos: "0 < q"
    by (simp add: q_def pow2_pos)
  have "q \<le> pow2 (int k - 52)"
    unfolding q_def using e by (intro pow2_mono) simp
  then have qle: "q \<le> 2 ^ k / 2 ^ 52"
    by (simp only: pow2_nat_shift)
  have rd: "round_double x = of_int (rne (x / q)) * q"
    using False by (simp add: round_double_def Let_def e_def q_def)
  have "round_double x - x = (of_int (rne (x / q)) - x / q) * q"
    using qpos by (simp add: rd field_simps)
  then have "\<bar>round_double x - x\<bar> = \<bar>of_int (rne (x / q)) - x / q\<bar> * q"
    using qpos by (simp add: abs_mult)
  also have "\<dots> \<le> (1 / 2) * q"
    using rne_error [of "x / q"] qpos by (intro mult_right_mono) simp_all
  also have "\<dots> \<le> (1 / 2) * (2 ^ k / 2 ^ 52)"
    using qle by simp
  finally show ?thesis
    by simp
qed

lemma round_double_zero: "round_double 0 = 0"
  by (simp add: round_double_def)

lemma round_double_one: "round_double 1 = 1"
  using round_double_eval [of 0 1] by (simp add: pow2_def rne_def Let_def)

lemma is_double_zero: "is_double 0"
  by (simp add: is_double_def round_double_zero pow2_def)

text \<open>The binary64 values of \<^verbatim>\<open>0.9\<close>, \<^verbatim>\<open>0.7\<close> and \<^verbatim>\<open>1 - 0.7\<close>.\<close>

lemma double_0_9: "round_double (9/10) = 8106479329266893 / 9007199254740992"
  using round_double_eval [of "- 1" "9/10"] by (simp add: pow2_def rne_def Let_def)

lemma double_0_7: "round_double (7/10) = 3152519739159347 / 4503599627370496"
  using round_double_eval [of "- 1" "7/10"] by (simp add: pow2_def rne_def Let_def)

lemma double_1_minus_0_7:
  "round_double (1 - 3152519739159347 / 4503599627370496)
   = 1351079888211149 / 4503599627370496"
  using round_double_eval [of "- 2" "1 - 3152519739159347 / 4503599627370496"]
  by (simp add: pow2_def rne_def Let_def)

text \<open>\<^verbatim>\<open>0.9 * 0.7\<close>, \<^verbatim>\<open>0.9 * (1 - 0.7)\<close> and their sum, each rounded.\<close>

lemma double_left_product:
  "round_double (8106479329266893 / 9007199254740992 * (3152519739159347 / 4503599627370496))
   = 5674535530486825 / 9007199254740992"
  using round_double_eval
    [of "- 1" "8106479329266893 / 9007199254740992 * (3152519739159347 / 4503599627370496)"]
  by (simp add: pow2_def rne_def Let_def)

lemma double_right_product:
  "round_double (8106479329266893 / 9007199254740992 * (1351079888211149 / 4503599627370496))
   = 4863887597560137 / 18014398509481984"
  using round_double_eval
    [of "- 2" "8106479329266893 / 9007199254740992 * (1351079888211149 / 4503599627370496)"]
  by (simp add: pow2_def rne_def Let_def)

lemma double_sum:
  "round_double (5674535530486825 / 9007199254740992 + 4863887597560137 / 18014398509481984)
   = 4053239664633447 / 4503599627370496"
  using round_double_eval
    [of "- 1" "5674535530486825 / 9007199254740992 + 4863887597560137 / 18014398509481984"]
  by (simp add: pow2_def rne_def Let_def)


text \<open>The loop, as for the exact method.\<close>

lemma smooth_loop_double_ok:
  "(\<And>j. i \<le> j \<Longrightarrow> j < length cur \<Longrightarrow> at_index prev j \<noteq> None \<Longrightarrow> cur ! j \<noteq> None)
   \<Longrightarrow> smooth_loop_double cur prev a i acc
       = Inr (acc @ map (\<lambda>j. case at_index prev j of
                                  Some p \<Rightarrow> Some (blend_double p (the (cur ! j)) a)
                                | None \<Rightarrow> cur ! j) [i..<length cur])"
proof (induction cur prev a i acc rule: smooth_loop_double.induct)
  case (1 cur prev a i acc)
  show ?case
  proof (cases "i < length cur")
    case False
    then show ?thesis by (simp add: smooth_loop_double.simps [of cur prev a i acc])
  next
    case True
    note lt = True
    have upt: "[i..<length cur] = i # [i + 1..<length cur]"
      using lt by (simp add: upt_conv_Cons)
    show ?thesis
    proof (cases "at_index prev i")
      case None
      have "smooth_loop_double cur prev a (i + 1) (acc @ [cur ! i])
            = Inr ((acc @ [cur ! i]) @ map (\<lambda>j. case at_index prev j of
                                  Some p \<Rightarrow> Some (blend_double p (the (cur ! j)) a)
                                | None \<Rightarrow> cur ! j) [i + 1..<length cur])"
        using "1.IH"(1) [OF lt None] "1.prems" by simp
      then show ?thesis
        using lt None upt by (simp add: smooth_loop_double.simps [of cur prev a i acc])
    next
      case (Some p)
      then obtain c where c: "cur ! i = Some c"
        using "1.prems" [of i] lt by auto
      have "smooth_loop_double cur prev a (i + 1) (acc @ [Some (blend_double p c a)])
            = Inr ((acc @ [Some (blend_double p c a)]) @ map (\<lambda>j. case at_index prev j of
                                  Some p \<Rightarrow> Some (blend_double p (the (cur ! j)) a)
                                | None \<Rightarrow> cur ! j) [i + 1..<length cur])"
        using "1.IH"(2) [OF lt Some c] "1.prems" by simp
      then show ?thesis
        using lt Some c upt by (simp add: smooth_loop_double.simps [of cur prev a i acc])
    qed
  qed
qed

lemma smoothLandmarks_double_equal_length:
  assumes "all_present F" and "all_present P" and "length F = length P"
  shows "smoothLandmarks_double F (Some P) a
         = Inr (map (\<lambda>j. Some (blend_double (the (P ! j)) (the (F ! j))
                                   (case a of None \<Rightarrow> round_double 0.7 | Some v \<Rightarrow> v)))
                    [0..<length F])"
proof -
  have present: "\<And>j. j < length F \<Longrightarrow> F ! j \<noteq> None"
    using assms(1) by (simp add: all_present_def list_all_length)
  have prev: "at_index P j = Some (the (P ! j))" if "j < length F" for j
    using that assms(2,3) by (auto simp: at_index_def all_present_def list_all_length)
  have "smoothLandmarks_double F (Some P) a
        = Inr (map (\<lambda>j. case at_index P j of
                            Some p \<Rightarrow> Some (blend_double p (the (F ! j))
                                             (case a of None \<Rightarrow> round_double 0.7 | Some v \<Rightarrow> v))
                          | None \<Rightarrow> F ! j) [0..<length F])"
    using present by (simp add: smoothLandmarks_double_def smooth_loop_double_ok)
  also have "map (\<lambda>j. case at_index P j of
                            Some p \<Rightarrow> Some (blend_double p (the (F ! j))
                                             (case a of None \<Rightarrow> round_double 0.7 | Some v \<Rightarrow> v))
                          | None \<Rightarrow> F ! j) [0..<length F]
             = map (\<lambda>j. Some (blend_double (the (P ! j)) (the (F ! j))
                                   (case a of None \<Rightarrow> round_double 0.7 | Some v \<Rightarrow> v)))
                    [0..<length F]"
    by (rule map_cong) (simp_all add: prev)
  finally show ?thesis .
qed

text \<open>
  The rounded blend against the exact one, for operands of magnitude at most \<open>2^k\<close>:
  four roundings of values below \<open>2^(k+1)\<close> in magnitude, each off by at most
  \<open>2^(k-53)\<close>.
\<close>

lemma blend_round_error_scaled:
  fixes p c a :: real
  assumes p: "\<bar>p\<bar> \<le> 2 ^ k" and c: "\<bar>c\<bar> \<le> 2 ^ k" and a0: "0 \<le> a" and a1: "a \<le> 1"
  shows "\<bar>round_double (round_double (p * a) + round_double (c * round_double (1 - a)))
          - (p * a + c * (1 - a))\<bar> \<le> 4 * 2 ^ k / 2 ^ 53"
proof -
  define B :: real where "B = 2 ^ k"
  define u :: real where "u = 1 / 2 ^ 53"
  have B: "1 \<le> B"
    by (simp add: B_def)
  have u: "0 < u" "u < 1 / 4"
    by (simp_all add: u_def)
  have Bu: "2 ^ k / 2 ^ 53 = B * u"
    by (simp add: B_def u_def)
  define b where "b = round_double (1 - a)"
  define t2 where "t2 = round_double (p * a)"
  define t3 where "t3 = round_double (c * b)"
  have "\<bar>1 - a\<bar> < 2 * 2 ^ 0"
    using a0 a1 by simp
  then have "\<bar>round_double (1 - a) - (1 - a)\<bar> \<le> 2 ^ 0 / 2 ^ 53"
    by (rule round_double_error_scaled)
  then have eb: "\<bar>b - (1 - a)\<bar> \<le> u"
    by (simp add: b_def u_def)
  have pa: "\<bar>p * a\<bar> \<le> B * a"
  proof -
    have "\<bar>p\<bar> * a \<le> B * a"
      using p a0 unfolding B_def by (intro mult_right_mono) simp_all
    then show ?thesis
      using a0 by (simp add: abs_mult)
  qed
  have Ba: "B * a \<le> B"
    using a1 B by (simp add: mult_left_le)
  have "\<bar>p * a\<bar> < 2 * 2 ^ k"
    using pa Ba B unfolding B_def by linarith
  then have "\<bar>round_double (p * a) - p * a\<bar> \<le> 2 ^ k / 2 ^ 53"
    by (rule round_double_error_scaled)
  then have e2: "\<bar>t2 - p * a\<bar> \<le> B * u"
    by (simp only: t2_def Bu)
  have babs: "\<bar>b\<bar> \<le> 1 - a + u"
    using eb a0 a1 by linarith
  have cb: "\<bar>c * b\<bar> \<le> B * (1 - a + u)"
  proof -
    have "\<bar>c\<bar> * \<bar>b\<bar> \<le> B * (1 - a + u)"
      using c babs unfolding B_def by (intro mult_mono) simp_all
    then show ?thesis
      by (simp add: abs_mult)
  qed
  have "B * (1 - a + u) \<le> B * (5 / 4)"
    using a0 u B by (intro mult_left_mono) simp_all
  then have "\<bar>c * b\<bar> < 2 * 2 ^ k"
    using cb B unfolding B_def by linarith
  then have "\<bar>round_double (c * b) - c * b\<bar> \<le> 2 ^ k / 2 ^ 53"
    by (rule round_double_error_scaled)
  then have e3: "\<bar>t3 - c * b\<bar> \<le> B * u"
    by (simp only: t3_def Bu)
  have cdiff: "\<bar>c * b - c * (1 - a)\<bar> \<le> B * u"
  proof -
    have "\<bar>c\<bar> * \<bar>b - (1 - a)\<bar> \<le> B * u"
      using c eb unfolding B_def by (intro mult_mono) simp_all
    moreover have "c * b - c * (1 - a) = c * (b - (1 - a))"
      by (simp add: algebra_simps)
    ultimately show ?thesis
      by (simp add: abs_mult)
  qed
  have c1a: "\<bar>c * (1 - a)\<bar> \<le> B * (1 - a)"
  proof -
    have "\<bar>c\<bar> * (1 - a) \<le> B * (1 - a)"
      using c a1 unfolding B_def by (intro mult_right_mono) simp_all
    then show ?thesis
      using a1 by (simp add: abs_mult)
  qed
  have "B * a + B * (1 - a) = B"
    by (simp add: algebra_simps)
  then have exact: "\<bar>p * a + c * (1 - a)\<bar> \<le> B"
    using pa c1a by linarith
  have es: "\<bar>(t2 + t3) - (p * a + c * (1 - a))\<bar> \<le> 3 * (B * u)"
    using e2 e3 cdiff by linarith
  have "B * u \<le> B * (1 / 4)"
    using u B by (intro mult_left_mono) simp_all
  then have "\<bar>t2 + t3\<bar> < 2 * 2 ^ k"
    using es exact B unfolding B_def by linarith
  then have "\<bar>round_double (t2 + t3) - (t2 + t3)\<bar> \<le> 2 ^ k / 2 ^ 53"
    by (rule round_double_error_scaled)
  then have "\<bar>round_double (t2 + t3) - (t2 + t3)\<bar> \<le> B * u"
    by (simp only: Bu)
  then have "\<bar>round_double (t2 + t3) - (p * a + c * (1 - a))\<bar> \<le> 4 * (B * u)"
    using es by linarith
  then show ?thesis
    by (simp add: t2_def t3_def b_def B_def u_def)
qed

lemma blend_double_x_near_convex_scaled:
  assumes "\<bar>lm_x p\<bar> \<le> 2 ^ k" and "\<bar>lm_x c\<bar> \<le> 2 ^ k" and "0 \<le> a" and "a \<le> 1"
  shows "min (lm_x c) (lm_x p) - 2 ^ k / 2 ^ 51 \<le> lm_x (blend_double p c a) \<and>
         lm_x (blend_double p c a) \<le> max (lm_x c) (lm_x p) + 2 ^ k / 2 ^ 51"
proof -
  have "\<bar>lm_x (blend_double p c a) - (lm_x p * a + lm_x c * (1 - a))\<bar> \<le> 4 * 2 ^ k / 2 ^ 53"
    unfolding blend_double_def using blend_round_error_scaled [OF assms] by simp
  moreover have "(4 * 2 ^ k / 2 ^ 53 :: real) = 2 ^ k / 2 ^ 51"
    by simp
  moreover have "min (lm_x c) (lm_x p) \<le> lm_x p * a + lm_x c * (1 - a) \<and>
                 lm_x p * a + lm_x c * (1 - a) \<le> max (lm_x c) (lm_x p)"
    using assms(3,4) by (rule convex_between)
  ultimately show ?thesis
    by linarith
qed

text \<open>The extreme factors on binary64 values.\<close>

lemma round_blend_one:
  "is_double p \<Longrightarrow> round_double (round_double (p * 1) + round_double (c * round_double (1 - 1))) = p"
  by (simp add: is_double_def round_double_zero)

lemma round_blend_zero:
  "is_double c \<Longrightarrow> round_double (round_double (p * 0) + round_double (c * round_double (1 - 0))) = c"
  by (simp add: is_double_def round_double_zero round_double_one)


lemma is_double_small: "round_double x = x \<Longrightarrow> \<bar>x\<bar> \<le> 1 \<Longrightarrow> is_double x"
proof -
  assume r: "round_double x = x" and le: "\<bar>x\<bar> \<le> 1"
  have "pow2 1 \<le> pow2 1024"
    by (rule pow2_mono) simp
  moreover have "pow2 1 = 2"
    by (simp add: pow2_def)
  ultimately show ?thesis
    using r le by (simp add: is_double_def)
qed

lemma is_double_examples:
  "is_double (1/4)" "is_double (1/2)" "is_double (3/4)" "is_double 1"
proof -
  have "round_double (1/4) = 1/4"
    using round_double_eval [of "- 2" "1/4"] by (simp add: pow2_def rne_def Let_def)
  then show "is_double (1/4)"
    by (rule is_double_small) simp
  have "round_double (1/2) = 1/2"
    using round_double_eval [of "- 1" "1/2"] by (simp add: pow2_def rne_def Let_def)
  then show "is_double (1/2)"
    by (rule is_double_small) simp
  have "round_double (3/4) = 3/4"
    using round_double_eval [of "- 1" "3/4"] by (simp add: pow2_def rne_def Let_def)
  then show "is_double (3/4)"
    by (rule is_double_small) simp
  show "is_double 1"
    using round_double_one by (rule is_double_small) simp
qed

lemma blend_double_one:
  "double_landmark p \<Longrightarrow> blend_double p c 1 = p\<lparr> lm_z := Some (or_zero (lm_z p)) \<rparr>"
  by (simp add: blend_double_def double_landmark_def round_blend_one [simplified])

lemma blend_double_zero:
  "double_landmark c \<Longrightarrow> blend_double p c 0 = c\<lparr> lm_z := Some (or_zero (lm_z c)) \<rparr>"
  by (simp add: blend_double_def double_landmark_def round_blend_zero [simplified])

lemma fill_z_id:
  fixes xs :: frame
  assumes "\<forall>p. Some p \<in> set xs \<longrightarrow> lm_z p \<noteq> None"
  shows "map (map_option (\<lambda>p. p\<lparr> lm_z := Some (or_zero (lm_z p)) \<rparr>)) xs = xs"
proof (rule map_idI)
  fix e assume e: "e \<in> set xs"
  show "map_option (\<lambda>p. p\<lparr> lm_z := Some (or_zero (lm_z p)) \<rparr>) e = e"
  proof (cases e)
    case None
    then show ?thesis by simp
  next
    case (Some l)
    then obtain v where "lm_z l = Some v"
      using assms e by auto
    then show ?thesis using Some by (simp add: or_zero_def)
  qed
qed

text \<open>
  Claim C9, amended. For frames \<open>F\<close> and \<open>P\<close> of equal length whose entries are all
  landmark objects, and a factor in \<open>[0, 1]\<close> (the default \<^verbatim>\<open>0.7\<close> included), the output's
  x at every index whose two inputs have x of magnitude at most \<open>2^k\<close> lies between
  \<open>min(F[i].x, P[i].x) - 2^(k-51)\<close> and \<open>max(F[i].x, P[i].x) + 2^(k-51)\<close>: the four rounded
  operations move the convex combination by at most \<open>2^(k-53)\<close> each. For normalized
  coordinates \<open>k = 0\<close>; \<open>k\<close> is at most 1022, so that no operation overflows. With
  \<open>\<alpha> = 1\<close> the output is \<open>P\<close>, with \<open>\<alpha> = 0\<close> it is \<open>F\<close>, for coordinates that are finite
  binary64 values, in both cases with a missing z replaced by 0; so it is exactly \<open>P\<close>
  (or \<open>F\<close>) when every landmark of that frame has a z.
\<close>

theorem C9_smoothLandmarks_double_near_convex:
  assumes "all_present F" and "all_present P" and "length F = length P"
  shows "(\<forall>a. (\<forall>\<alpha>. a = Some \<alpha> \<longrightarrow> 0 \<le> \<alpha> \<and> \<alpha> \<le> 1) \<longrightarrow>
            (\<exists>out. smoothLandmarks_double F (Some P) a = Inr out \<and> length out = length F \<and>
               (\<forall>i f p k. i < length F \<and> F ! i = Some f \<and> P ! i = Some p \<and> k \<le> 1022 \<and>
                        \<bar>lm_x f\<bar> \<le> 2 ^ k \<and> \<bar>lm_x p\<bar> \<le> 2 ^ k \<longrightarrow>
                  (\<exists>s. out ! i = Some s \<and>
                       min (lm_x f) (lm_x p) - 2 ^ k / 2 ^ 51 \<le> lm_x s \<and>
                       lm_x s \<le> max (lm_x f) (lm_x p) + 2 ^ k / 2 ^ 51)))) \<and>
         ((\<forall>p. Some p \<in> set P \<longrightarrow> double_landmark p) \<longrightarrow>
            smoothLandmarks_double F (Some P) (Some 1)
              = Inr (map (map_option (\<lambda>p. p\<lparr> lm_z := Some (or_zero (lm_z p)) \<rparr>)) P)) \<and>
         ((\<forall>f. Some f \<in> set F \<longrightarrow> double_landmark f) \<longrightarrow>
            smoothLandmarks_double F (Some P) (Some 0)
              = Inr (map (map_option (\<lambda>f. f\<lparr> lm_z := Some (or_zero (lm_z f)) \<rparr>)) F)) \<and>
         ((\<forall>p. Some p \<in> set P \<longrightarrow> double_landmark p \<and> lm_z p \<noteq> None) \<longrightarrow>
            smoothLandmarks_double F (Some P) (Some 1) = Inr P) \<and>
         ((\<forall>f. Some f \<in> set F \<longrightarrow> double_landmark f \<and> lm_z f \<noteq> None) \<longrightarrow>
            smoothLandmarks_double F (Some P) (Some 0) = Inr F)"
proof -
  note eq = smoothLandmarks_double_equal_length [OF assms]
  have default: "0 \<le> round_double 0.7 \<and> round_double 0.7 \<le> 1"
  proof -
    have "round_double 0.7 = round_double (7/10)"
      by simp
    then show ?thesis
      by (simp only: double_0_7) simp
  qed
  have near: "\<forall>a. (\<forall>\<alpha>. a = Some \<alpha> \<longrightarrow> 0 \<le> \<alpha> \<and> \<alpha> \<le> 1) \<longrightarrow>
            (\<exists>out. smoothLandmarks_double F (Some P) a = Inr out \<and> length out = length F \<and>
               (\<forall>i f p k. i < length F \<and> F ! i = Some f \<and> P ! i = Some p \<and> k \<le> 1022 \<and>
                        \<bar>lm_x f\<bar> \<le> 2 ^ k \<and> \<bar>lm_x p\<bar> \<le> 2 ^ k \<longrightarrow>
                  (\<exists>s. out ! i = Some s \<and>
                       min (lm_x f) (lm_x p) - 2 ^ k / 2 ^ 51 \<le> lm_x s \<and>
                       lm_x s \<le> max (lm_x f) (lm_x p) + 2 ^ k / 2 ^ 51)))"
  proof (intro allI impI)
    fix a :: "real option"
    assume range: "\<forall>\<alpha>. a = Some \<alpha> \<longrightarrow> 0 \<le> \<alpha> \<and> \<alpha> \<le> 1"
    define al where "al = (case a of None \<Rightarrow> round_double 0.7 | Some v \<Rightarrow> v)"
    have al: "0 \<le> al" "al \<le> 1"
      using range default by (cases a; simp add: al_def)+
    let ?out = "map (\<lambda>j. Some (blend_double (the (P ! j)) (the (F ! j)) al)) [0..<length F]"
    have out: "smoothLandmarks_double F (Some P) a = Inr ?out"
      unfolding al_def by (rule eq)
    have len: "length ?out = length F"
      by simp
    have ix: "\<forall>i f p k. i < length F \<and> F ! i = Some f \<and> P ! i = Some p \<and> k \<le> 1022 \<and>
                        \<bar>lm_x f\<bar> \<le> 2 ^ k \<and> \<bar>lm_x p\<bar> \<le> 2 ^ k \<longrightarrow>
                  (\<exists>s. ?out ! i = Some s \<and>
                       min (lm_x f) (lm_x p) - 2 ^ k / 2 ^ 51 \<le> lm_x s \<and>
                       lm_x s \<le> max (lm_x f) (lm_x p) + 2 ^ k / 2 ^ 51)"
    proof (intro allI impI)
      fix i f p and k :: nat
      assume h: "i < length F \<and> F ! i = Some f \<and> P ! i = Some p \<and> k \<le> 1022 \<and>
                 \<bar>lm_x f\<bar> \<le> 2 ^ k \<and> \<bar>lm_x p\<bar> \<le> 2 ^ k"
      have entry: "?out ! i = Some (blend_double p f al)"
        using h by simp
      have "min (lm_x f) (lm_x p) - 2 ^ k / 2 ^ 51 \<le> lm_x (blend_double p f al) \<and>
            lm_x (blend_double p f al) \<le> max (lm_x f) (lm_x p) + 2 ^ k / 2 ^ 51"
        using h al by (intro blend_double_x_near_convex_scaled) simp_all
      with entry show "\<exists>s. ?out ! i = Some s \<and>
                       min (lm_x f) (lm_x p) - 2 ^ k / 2 ^ 51 \<le> lm_x s \<and>
                       lm_x s \<le> max (lm_x f) (lm_x p) + 2 ^ k / 2 ^ 51"
        by blast
    qed
    show "\<exists>out. smoothLandmarks_double F (Some P) a = Inr out \<and> length out = length F \<and>
               (\<forall>i f p k. i < length F \<and> F ! i = Some f \<and> P ! i = Some p \<and> k \<le> 1022 \<and>
                        \<bar>lm_x f\<bar> \<le> 2 ^ k \<and> \<bar>lm_x p\<bar> \<le> 2 ^ k \<longrightarrow>
                  (\<exists>s. out ! i = Some s \<and>
                       min (lm_x f) (lm_x p) - 2 ^ k / 2 ^ 51 \<le> lm_x s \<and>
                       lm_x s \<le> max (lm_x f) (lm_x p) + 2 ^ k / 2 ^ 51))"
      by (intro exI [of _ ?out] conjI out len ix)
  qed
  have one: "smoothLandmarks_double F (Some P) (Some 1)
              = Inr (map (map_option (\<lambda>p. p\<lparr> lm_z := Some (or_zero (lm_z p)) \<rparr>)) P)"
    if dbl: "\<forall>p. Some p \<in> set P \<longrightarrow> double_landmark p"
  proof -
    have "map (\<lambda>j. Some (blend_double (the (P ! j)) (the (F ! j)) 1)) [0..<length F]
          = map (map_option (\<lambda>p. p\<lparr> lm_z := Some (or_zero (lm_z p)) \<rparr>)) P"
    proof (rule nth_equalityI)
      show "length (map (\<lambda>j. Some (blend_double (the (P ! j)) (the (F ! j)) 1)) [0..<length F])
            = length (map (map_option (\<lambda>p. p\<lparr> lm_z := Some (or_zero (lm_z p)) \<rparr>)) P)"
        using assms(3) by simp
    next
      fix i assume "i < length (map (\<lambda>j. Some (blend_double (the (P ! j)) (the (F ! j)) 1)) [0..<length F])"
      then have lt: "i < length P"
        using assms(3) by simp
      obtain p where p: "P ! i = Some p"
        using all_present_nth [OF assms(2) lt] by blast
      then have "Some p \<in> set P"
        using lt by (metis nth_mem)
      then have "double_landmark p"
        using dbl by blast
      then show "map (\<lambda>j. Some (blend_double (the (P ! j)) (the (F ! j)) 1)) [0..<length F] ! i
            = map (map_option (\<lambda>p. p\<lparr> lm_z := Some (or_zero (lm_z p)) \<rparr>)) P ! i"
        using lt assms(3) p by (simp add: blend_double_one)
    qed
    then show ?thesis
      using eq [of "Some 1"] by simp
  qed
  have zero: "smoothLandmarks_double F (Some P) (Some 0)
              = Inr (map (map_option (\<lambda>f. f\<lparr> lm_z := Some (or_zero (lm_z f)) \<rparr>)) F)"
    if dbl: "\<forall>f. Some f \<in> set F \<longrightarrow> double_landmark f"
  proof -
    have "map (\<lambda>j. Some (blend_double (the (P ! j)) (the (F ! j)) 0)) [0..<length F]
          = map (map_option (\<lambda>f. f\<lparr> lm_z := Some (or_zero (lm_z f)) \<rparr>)) F"
    proof (rule nth_equalityI)
      show "length (map (\<lambda>j. Some (blend_double (the (P ! j)) (the (F ! j)) 0)) [0..<length F])
            = length (map (map_option (\<lambda>f. f\<lparr> lm_z := Some (or_zero (lm_z f)) \<rparr>)) F)"
        by simp
    next
      fix i assume "i < length (map (\<lambda>j. Some (blend_double (the (P ! j)) (the (F ! j)) 0)) [0..<length F])"
      then have lt: "i < length F"
        by simp
      obtain f where f: "F ! i = Some f"
        using all_present_nth [OF assms(1) lt] by blast
      then have "Some f \<in> set F"
        using lt by (metis nth_mem)
      then have "double_landmark f"
        using dbl by blast
      then show "map (\<lambda>j. Some (blend_double (the (P ! j)) (the (F ! j)) 0)) [0..<length F] ! i
            = map (map_option (\<lambda>f. f\<lparr> lm_z := Some (or_zero (lm_z f)) \<rparr>)) F ! i"
        using lt f by (simp add: blend_double_zero)
    qed
    then show ?thesis
      using eq [of "Some 0"] by simp
  qed
  have one_exact: "smoothLandmarks_double F (Some P) (Some 1) = Inr P"
    if "\<forall>p. Some p \<in> set P \<longrightarrow> double_landmark p \<and> lm_z p \<noteq> None"
    using one fill_z_id [of P] that by simp
  have zero_exact: "smoothLandmarks_double F (Some P) (Some 0) = Inr F"
    if "\<forall>f. Some f \<in> set F \<longrightarrow> double_landmark f \<and> lm_z f \<noteq> None"
    using zero fill_z_id [of F] that by simp
  show ?thesis
    using near one zero one_exact zero_exact by blast
qed


text \<open>
  Claim C9 says that the output's x lies between the two inputs' x, and that with
  \<open>\<alpha> = 1\<close> the output equals the previous frame exactly. Neither holds of the method.
  \<^item> At \<^verbatim>\<open>F[0].x = P[0].x = 0.9\<close> and the default factor the source computes
    \<^verbatim>\<open>0.9 * 0.7 + 0.9 * (1 - 0.7)\<close>, which is \<^verbatim>\<open>0.9000000000000001\<close>: one unit in the
    last place above both inputs.
  \<^item> A previous landmark without z comes back with \<open>z = 0\<close>: the pushed object always
    has a z field, \<^verbatim>\<open>(previous.z || 0) * 1 + (current.z || 0) * 0\<close>.
\<close>

theorem C9_rounding_and_missing_z_counterexample:
  "round_double (9/10) = 8106479329266893 / 9007199254740992 \<and>
   all_present [Some \<lparr> lm_x = 8106479329266893 / 9007199254740992, lm_y = 0, lm_z = Some 0 \<rparr>] \<and>
   smoothLandmarks_double
       [Some \<lparr> lm_x = 8106479329266893 / 9007199254740992, lm_y = 0, lm_z = Some 0 \<rparr>]
       (Some [Some \<lparr> lm_x = 8106479329266893 / 9007199254740992, lm_y = 0, lm_z = Some 0 \<rparr>])
       None
     = Inr [Some \<lparr> lm_x = 4053239664633447 / 4503599627370496, lm_y = 0, lm_z = Some 0 \<rparr>] \<and>
   max (8106479329266893 / 9007199254740992) (8106479329266893 / 9007199254740992)
     < (4053239664633447 / 4503599627370496 :: real) \<and>
   all_present [Some \<lparr> lm_x = 1/4, lm_y = 1/2, lm_z = None \<rparr>] \<and>
   all_present [Some \<lparr> lm_x = 3/4, lm_y = 1, lm_z = None \<rparr>] \<and>
   smoothLandmarks_double [Some \<lparr> lm_x = 1/4, lm_y = 1/2, lm_z = None \<rparr>]
       (Some [Some \<lparr> lm_x = 3/4, lm_y = 1, lm_z = None \<rparr>]) (Some 1)
     = Inr [Some \<lparr> lm_x = 3/4, lm_y = 1, lm_z = Some 0 \<rparr>] \<and>
   smoothLandmarks_double [Some \<lparr> lm_x = 1/4, lm_y = 1/2, lm_z = None \<rparr>]
       (Some [Some \<lparr> lm_x = 3/4, lm_y = 1, lm_z = None \<rparr>]) (Some 1)
     \<noteq> Inr [Some \<lparr> lm_x = 3/4, lm_y = 1, lm_z = None \<rparr>]"
proof -
  let ?d = "8106479329266893 / 9007199254740992 :: real"
  let ?l = "\<lparr> lm_x = ?d, lm_y = 0, lm_z = Some 0 \<rparr>"
  have factor: "round_double 0.7 = 3152519739159347 / 4503599627370496"
    using double_0_7 by simp
  have x: "round_double
             (round_double (?d * (3152519739159347 / 4503599627370496))
              + round_double (?d * round_double (1 - 3152519739159347 / 4503599627370496)))
           = 4053239664633447 / 4503599627370496"
    by (simp only: double_1_minus_0_7 double_left_product double_right_product double_sum)
  have blend: "blend_double ?l ?l (3152519739159347 / 4503599627370496)
               = \<lparr> lm_x = 4053239664633447 / 4503599627370496, lm_y = 0, lm_z = Some 0 \<rparr>"
    unfolding blend_double_def
    by (simp only: landmark.simps x or_zero_def option.case mult_zero_left round_double_zero add_0)
  have run: "smoothLandmarks_double [Some ?l] (Some [Some ?l]) None
             = Inr [Some \<lparr> lm_x = 4053239664633447 / 4503599627370496, lm_y = 0, lm_z = Some 0 \<rparr>]"
    using blend
    by (simp add: smoothLandmarks_double_def smooth_loop_double.simps at_index_def factor)
  let ?f = "\<lparr> lm_x = 1/4, lm_y = 1/2, lm_z = None \<rparr>"
  let ?p = "\<lparr> lm_x = 3/4, lm_y = 1, lm_z = None \<rparr>"
  have "double_landmark ?p"
    by (simp add: double_landmark_def is_double_examples is_double_zero or_zero_def)
  then have "blend_double ?p ?f 1 = \<lparr> lm_x = 3/4, lm_y = 1, lm_z = Some 0 \<rparr>"
    by (simp add: blend_double_one or_zero_def)
  then have z: "smoothLandmarks_double [Some ?f] (Some [Some ?p]) (Some 1)
                = Inr [Some \<lparr> lm_x = 3/4, lm_y = 1, lm_z = Some 0 \<rparr>]"
    by (simp add: smoothLandmarks_double_def smooth_loop_double.simps at_index_def)
  have bigger: "max ?d ?d < (4053239664633447 / 4503599627370496 :: real)"
    by simp
  show ?thesis
    using double_0_9 run bigger z by (simp add: all_present_def)
qed

text \<open>One landmark in each frame, with coordinates that are binary64 values.\<close>

theorem C9_smoothLandmarks_double_near_convex_witness:
  "all_present [Some \<lparr> lm_x = 1/4, lm_y = 1/2, lm_z = Some (1/2) \<rparr>] \<and>
   all_present [Some \<lparr> lm_x = 3/4, lm_y = 1, lm_z = Some 1 \<rparr>] \<and>
   length [Some \<lparr> lm_x = 1/4, lm_y = 1/2, lm_z = Some (1/2) \<rparr>]
     = length [Some \<lparr> lm_x = 3/4, lm_y = 1, lm_z = Some 1 \<rparr>] \<and>
   double_landmark \<lparr> lm_x = 1/4, lm_y = 1/2, lm_z = Some (1/2) \<rparr> \<and>
   double_landmark \<lparr> lm_x = 3/4, lm_y = 1, lm_z = Some 1 \<rparr> \<and>
   (\<exists>out s. smoothLandmarks_double [Some \<lparr> lm_x = 1/4, lm_y = 1/2, lm_z = Some (1/2) \<rparr>]
               (Some [Some \<lparr> lm_x = 3/4, lm_y = 1, lm_z = Some 1 \<rparr>]) None = Inr out \<and>
            out ! 0 = Some s \<and> 1/4 - 1 / 2 ^ 51 \<le> lm_x s \<and> lm_x s \<le> 3/4 + 1 / 2 ^ 51) \<and>
   smoothLandmarks_double [Some \<lparr> lm_x = 1/4, lm_y = 1/2, lm_z = Some (1/2) \<rparr>]
       (Some [Some \<lparr> lm_x = 3/4, lm_y = 1, lm_z = Some 1 \<rparr>]) (Some 1)
     = Inr [Some \<lparr> lm_x = 3/4, lm_y = 1, lm_z = Some 1 \<rparr>] \<and>
   smoothLandmarks_double [Some \<lparr> lm_x = 1/4, lm_y = 1/2, lm_z = Some (1/2) \<rparr>]
       (Some [Some \<lparr> lm_x = 3/4, lm_y = 1, lm_z = Some 1 \<rparr>]) (Some 0)
     = Inr [Some \<lparr> lm_x = 1/4, lm_y = 1/2, lm_z = Some (1/2) \<rparr>]"
proof -
  let ?f = "\<lparr> lm_x = 1/4, lm_y = 1/2, lm_z = Some (1/2) \<rparr>"
  let ?p = "\<lparr> lm_x = 3/4, lm_y = 1, lm_z = Some 1 \<rparr>"
  have apF: "all_present [Some ?f]" and apP: "all_present [Some ?p]"
    by (simp_all add: all_present_def)
  have len: "length [Some ?f] = length [Some ?p]"
    by simp
  have dF: "double_landmark ?f" and dP: "double_landmark ?p"
    by (simp_all add: double_landmark_def is_double_examples or_zero_def)
  note inst = C9_smoothLandmarks_double_near_convex [OF apF apP len]
  from inst have "\<exists>out. smoothLandmarks_double [Some ?f] (Some [Some ?p]) None = Inr out \<and>
        length out = length [Some ?f] \<and>
        (\<forall>i f p k. i < length [Some ?f] \<and> [Some ?f] ! i = Some f \<and> [Some ?p] ! i = Some p \<and>
                 k \<le> 1022 \<and> \<bar>lm_x f\<bar> \<le> 2 ^ k \<and> \<bar>lm_x p\<bar> \<le> 2 ^ k \<longrightarrow>
           (\<exists>s. out ! i = Some s \<and>
                min (lm_x f) (lm_x p) - 2 ^ k / 2 ^ 51 \<le> lm_x s \<and>
                lm_x s \<le> max (lm_x f) (lm_x p) + 2 ^ k / 2 ^ 51))"
    by blast
  then obtain out where o: "smoothLandmarks_double [Some ?f] (Some [Some ?p]) None = Inr out"
    and ix: "\<forall>i f p k. i < length [Some ?f] \<and> [Some ?f] ! i = Some f \<and> [Some ?p] ! i = Some p \<and>
                 k \<le> 1022 \<and> \<bar>lm_x f\<bar> \<le> 2 ^ k \<and> \<bar>lm_x p\<bar> \<le> 2 ^ k \<longrightarrow>
           (\<exists>s. out ! i = Some s \<and>
                min (lm_x f) (lm_x p) - 2 ^ k / 2 ^ 51 \<le> lm_x s \<and>
                lm_x s \<le> max (lm_x f) (lm_x p) + 2 ^ k / 2 ^ 51)"
    by blast
  from ix [rule_format, of 0 ?f ?p 0]
  obtain s where s: "out ! 0 = Some s" "1/4 - 1 / 2 ^ 51 \<le> lm_x s" "lm_x s \<le> 3/4 + 1 / 2 ^ 51"
    by auto
  have one: "smoothLandmarks_double [Some ?f] (Some [Some ?p]) (Some 1) = Inr [Some ?p]"
    using inst dP by (simp add: or_zero_def)
  have zero: "smoothLandmarks_double [Some ?f] (Some [Some ?p]) (Some 0) = Inr [Some ?f]"
    using inst dF by (simp add: or_zero_def)
  show ?thesis
    using apF apP dF dP o s one zero by auto
qed

section \<open>The pose estimator\<close>

subsection \<open>Confidence\<close>

lemma count_valid_filter:
  "count_valid ls idxs n = n + length (filter (landmark_valid ls) idxs)"
  by (induction idxs arbitrary: n) simp_all

lemma landmark_valid_iff:
  "landmark_valid ls i \<longleftrightarrow>
     (\<exists>l. at_index ls i = Some l \<and> 0 \<le> lm_x l \<and> lm_x l \<le> 1 \<and> 0 \<le> lm_y l \<and> lm_y l \<le> 1)"
  by (auto simp: landmark_valid_def split: option.splits)

lemma at_index_Nil: "at_index [] i = None"
  by (simp add: at_index_def)

lemma calculateConfidence_card:
  "calculateConfidence (Some ls)
   = real (card {i \<in> {33, 263, 1, 9}. landmark_valid ls i}) / 4"
proof (cases "ls = []")
  case True
  have "{i \<in> {33, 263, 1, 9 :: nat}. landmark_valid [] i} = {}"
    by (simp add: landmark_valid_def at_index_Nil)
  then show ?thesis
    using True by (simp add: calculateConfidence_def)
next
  case False
  have d: "distinct (filter (landmark_valid ls) keyIndices)"
    by (rule distinct_filter) (simp add: keyIndices_def)
  have "{i \<in> {33, 263, 1, 9}. landmark_valid ls i} = set (filter (landmark_valid ls) keyIndices)"
    by (auto simp: keyIndices_def)
  then have "card {i \<in> {33, 263, 1, 9}. landmark_valid ls i}
             = length (filter (landmark_valid ls) keyIndices)"
    using distinct_card [OF d] by simp
  moreover have "length keyIndices = 4"
    by (simp add: keyIndices_def)
  ultimately show ?thesis
    using False by (simp add: calculateConfidence_def count_valid_filter)
qed

text \<open>
  Claim C7. \<^verbatim>\<open>calculateConfidence\<close> looks at the entries 33, 263, 1 and 9 of the frame
  and at nothing else, and returns the number of those four that are present with x
  and y both in \<open>[0, 1]\<close>, divided by 4: 1 when all four are valid, 0 when none is, 1/2
  when exactly two are.
\<close>

theorem C7_calculateConfidence_fraction:
  "(let valid = (\<lambda>frame i. \<exists>l. at_index frame i = Some l \<and>
                    0 \<le> lm_x l \<and> lm_x l \<le> 1 \<and> 0 \<le> lm_y l \<and> lm_y l \<le> 1)
    in calculateConfidence (Some ls) = real (card {i \<in> {33, 263, 1, 9}. valid ls i}) / 4 \<and>
       ((\<forall>i \<in> {33, 263, 1, 9}. valid ls i) \<longrightarrow> calculateConfidence (Some ls) = 1) \<and>
       ((\<forall>i \<in> {33, 263, 1, 9}. \<not> valid ls i) \<longrightarrow> calculateConfidence (Some ls) = 0) \<and>
       (card {i \<in> {33, 263, 1, 9}. valid ls i} = 2 \<longrightarrow> calculateConfidence (Some ls) = 1 / 2) \<and>
       ((\<forall>i \<in> {33, 263, 1, 9}. at_index ls' i = at_index ls i) \<longrightarrow>
          calculateConfidence (Some ls') = calculateConfidence (Some ls)))"
proof -
  let ?S = "\<lambda>frame. {i \<in> {33, 263, 1, 9 :: nat}. landmark_valid frame i}"
  have frac: "calculateConfidence (Some ls) = real (card (?S ls)) / 4"
    by (rule calculateConfidence_card)
  have all: "calculateConfidence (Some ls) = 1" if "\<forall>i \<in> {33, 263, 1, 9}. landmark_valid ls i"
  proof -
    have "?S ls = {33, 263, 1, 9}"
      using that by auto
    then show ?thesis
      by (simp add: frac)
  qed
  have none: "calculateConfidence (Some ls) = 0" if "\<forall>i \<in> {33, 263, 1, 9}. \<not> landmark_valid ls i"
  proof -
    have "?S ls = {}"
      using that by auto
    then show ?thesis
      by (simp add: frac)
  qed
  have two: "calculateConfidence (Some ls) = 1 / 2" if "card (?S ls) = 2"
    using that by (simp add: frac)
  have same: "calculateConfidence (Some ls') = calculateConfidence (Some ls)"
    if "\<forall>i \<in> {33, 263, 1, 9}. at_index ls' i = at_index ls i"
  proof -
    have "?S ls' = ?S ls"
      using that by (auto simp: landmark_valid_def)
    then show ?thesis
      by (simp add: calculateConfidence_card)
  qed
  show ?thesis
    unfolding Let_def landmark_valid_iff [symmetric]
    using frac all none two same by blast
qed


text \<open>
  Three frames of 264 landmarks: all at the centre of the image; all with \<open>x = 1.5\<close>;
  and the first with entry 33 moved to \<open>x = -0.1\<close> and entry 1 to \<open>y = 1.2\<close>.
\<close>

theorem C7_calculateConfidence_fraction_witness:
  "calculateConfidence (Some (replicate 264 (Some \<lparr> lm_x = 1/2, lm_y = 1/2, lm_z = None \<rparr>))) = 1 \<and>
   calculateConfidence (Some (replicate 264 (Some \<lparr> lm_x = 3/2, lm_y = 1/2, lm_z = None \<rparr>))) = 0 \<and>
   calculateConfidence
     (Some ((replicate 264 (Some \<lparr> lm_x = 1/2, lm_y = 1/2, lm_z = None \<rparr>))
              [33 := Some \<lparr> lm_x = - 1/10, lm_y = 1/2, lm_z = None \<rparr>,
               1 := Some \<lparr> lm_x = 1/2, lm_y = 6/5, lm_z = None \<rparr>])) = 1 / 2"
proof -
  let ?mid = "\<lparr> lm_x = 1/2, lm_y = 1/2, lm_z = None \<rparr>"
  let ?off = "\<lparr> lm_x = 3/2, lm_y = 1/2, lm_z = None \<rparr>"
  let ?half = "(replicate 264 (Some ?mid))
                 [33 := Some \<lparr> lm_x = - 1/10, lm_y = 1/2, lm_z = None \<rparr>,
                  1 := Some \<lparr> lm_x = 1/2, lm_y = 6/5, lm_z = None \<rparr>]"
  have rep: "at_index (replicate 264 (Some v)) i = Some v" if "i < 264" for i and v :: landmark
    using that by (simp add: at_index_def)
  have h33: "at_index ?half 33 = Some \<lparr> lm_x = - 1/10, lm_y = 1/2, lm_z = None \<rparr>"
    and h1: "at_index ?half 1 = Some \<lparr> lm_x = 1/2, lm_y = 6/5, lm_z = None \<rparr>"
    and h263: "at_index ?half 263 = Some ?mid"
    and h9: "at_index ?half 9 = Some ?mid"
    by (simp_all add: at_index_def)
  have one: "calculateConfidence (Some (replicate 264 (Some ?mid))) = 1"
    using C7_calculateConfidence_fraction [of "replicate 264 (Some ?mid)",
        unfolded Let_def, THEN conjunct2, THEN conjunct1]
    by (simp add: rep)
  have zero: "calculateConfidence (Some (replicate 264 (Some ?off))) = 0"
    using C7_calculateConfidence_fraction [of "replicate 264 (Some ?off)",
        unfolded Let_def, THEN conjunct2, THEN conjunct2, THEN conjunct1]
    by (simp add: rep)
  have "{i \<in> {33, 263, 1, 9}. \<exists>l. at_index ?half i = Some l \<and>
            0 \<le> lm_x l \<and> lm_x l \<le> 1 \<and> 0 \<le> lm_y l \<and> lm_y l \<le> 1} = {263, 9}"
    using h33 h1 h263 h9 by auto
  then have half: "calculateConfidence (Some ?half) = 1 / 2"
    using C7_calculateConfidence_fraction [of ?half,
        unfolded Let_def, THEN conjunct1]
    by simp
  show ?thesis
    using one zero half by simp
qed

subsection \<open>Bounding rectangle\<close>

lemma Min_insert_min:
  fixes a b :: real
  assumes "finite S"
  shows "Min (insert (min a b) S) = Min (insert a (insert b S))"
proof (cases "S = {}")
  case True
  then show ?thesis by simp
next
  case False
  then show ?thesis using assms by (simp add: min.assoc)
qed

lemma Max_insert_max:
  fixes a b :: real
  assumes "finite S"
  shows "Max (insert (max a b) S) = Max (insert a (insert b S))"
proof (cases "S = {}")
  case True
  then show ?thesis by simp
next
  case False
  then show ?thesis using assms by (simp add: max.assoc)
qed

lemma rect_scan_present:
  "rect_scan (map Some lms) (minX, minY, maxX, maxY)
   = Inr (Min (insert minX (lm_x ` set lms)), Min (insert minY (lm_y ` set lms)),
          Max (insert maxX (lm_x ` set lms)), Max (insert maxY (lm_y ` set lms)))"
proof (induction lms arbitrary: minX minY maxX maxY)
  case Nil
  show ?case by simp
next
  case (Cons l lms)
  show ?case
    by (simp add: Cons.IH Min_insert_min Max_insert_max)
qed

lemma Min_insert_upper:
  fixes S :: "real set"
  assumes "finite S" "S \<noteq> {}" "\<forall>v \<in> S. v \<le> u"
  shows "Min (insert u S) = Min S"
proof -
  have "Min S \<le> u"
    using assms by (meson Min_in Min_le order_trans eq_iff)
  then show ?thesis
    using assms by (simp add: min_absorb2)
qed

lemma Max_insert_lower:
  fixes S :: "real set"
  assumes "finite S" "S \<noteq> {}" "\<forall>v \<in> S. u \<le> v"
  shows "Max (insert u S) = Max S"
proof -
  have "u \<le> Max S"
    using assms by (meson Max_in Max_ge order_trans eq_iff)
  then show ?thesis
    using assms by (simp add: max_absorb2)
qed

text \<open>
  Claim C2 says that the empty frame gives a zero-size rect at (0, 0). The guard
  \<^verbatim>\<open>landmarks.length === 0\<close> returns \<^verbatim>\<open>null\<close> before the scan: there is no rect.
\<close>

theorem C2_empty_frame_counterexample:
  "calculateFaceRect (Some []) = Inr None \<and>
   calculateFaceRect (Some []) \<noteq>
     Inr (Some \<lparr> rect_x = 0, rect_y = 0, rect_width = 0, rect_height = 0,
                  rect_centerX = 0, rect_centerY = 0 \<rparr>)"
  by (simp add: calculateFaceRect_def)

text \<open>
  The scan starts from \<open>minX = minY = 1\<close> and \<open>maxX = maxY = 0\<close>, so a frame that lies
  wholly beyond 1 keeps the seed as its minimum.
\<close>

lemma calculateFaceRect_seed_example:
  "calculateFaceRect (Some [Some \<lparr> lm_x = 6/5, lm_y = 1/2, lm_z = None \<rparr>])
   = Inr (Some \<lparr> rect_x = 1, rect_y = 1/2, rect_width = 1/5, rect_height = 0,
                  rect_centerX = 11/10, rect_centerY = 1/2 \<rparr>)"
  by (simp add: calculateFaceRect_def)

text \<open>
  Claim C2, amended. On the empty frame \<^verbatim>\<open>calculateFaceRect\<close> does not fail and returns
  \<^verbatim>\<open>null\<close>. On a non-empty frame of landmark objects it returns
  \<open>{x: minX, y: minY, width: maxX - minX, height: maxY - minY, centerX: (minX + maxX) / 2,
  centerY: (minY + maxY) / 2}\<close>, where \<open>minX\<close>, \<open>minY\<close> are the least of 1 and the
  landmarks' x (y), and \<open>maxX\<close>, \<open>maxY\<close> the greatest of 0 and the landmarks' x (y); when
  every landmark has x and y in \<open>[0, 1]\<close> these are the least and greatest landmark
  coordinates themselves.
\<close>

theorem C2_calculateFaceRect_bounds:
  "calculateFaceRect (Some []) = Inr None \<and>
   (lms \<noteq> [] \<longrightarrow>
      calculateFaceRect (Some (map Some lms))
      = Inr (Some \<lparr> rect_x = Min (insert 1 (lm_x ` set lms)),
                     rect_y = Min (insert 1 (lm_y ` set lms)),
                     rect_width = Max (insert 0 (lm_x ` set lms)) - Min (insert 1 (lm_x ` set lms)),
                     rect_height = Max (insert 0 (lm_y ` set lms)) - Min (insert 1 (lm_y ` set lms)),
                     rect_centerX = (Min (insert 1 (lm_x ` set lms)) + Max (insert 0 (lm_x ` set lms))) / 2,
                     rect_centerY = (Min (insert 1 (lm_y ` set lms)) + Max (insert 0 (lm_y ` set lms))) / 2 \<rparr>)) \<and>
   (lms \<noteq> [] \<and> (\<forall>l \<in> set lms. 0 \<le> lm_x l \<and> lm_x l \<le> 1 \<and> 0 \<le> lm_y l \<and> lm_y l \<le> 1) \<longrightarrow>
      calculateFaceRect (Some (map Some lms))
      = Inr (Some \<lparr> rect_x = Min (lm_x ` set lms),
                     rect_y = Min (lm_y ` set lms),
                     rect_width = Max (lm_x ` set lms) - Min (lm_x ` set lms),
                     rect_height = Max (lm_y ` set lms) - Min (lm_y ` set lms),
                     rect_centerX = (Min (lm_x ` set lms) + Max (lm_x ` set lms)) / 2,
                     rect_centerY = (Min (lm_y ` set lms) + Max (lm_y ` set lms)) / 2 \<rparr>))"
proof (intro conjI impI)
  show "calculateFaceRect (Some []) = Inr None"
    by (simp add: calculateFaceRect_def)
next
  assume "lms \<noteq> []"
  then show "calculateFaceRect (Some (map Some lms))
      = Inr (Some \<lparr> rect_x = Min (insert 1 (lm_x ` set lms)),
                     rect_y = Min (insert 1 (lm_y ` set lms)),
                     rect_width = Max (insert 0 (lm_x ` set lms)) - Min (insert 1 (lm_x ` set lms)),
                     rect_height = Max (insert 0 (lm_y ` set lms)) - Min (insert 1 (lm_y ` set lms)),
                     rect_centerX = (Min (insert 1 (lm_x ` set lms)) + Max (insert 0 (lm_x ` set lms))) / 2,
                     rect_centerY = (Min (insert 1 (lm_y ` set lms)) + Max (insert 0 (lm_y ` set lms))) / 2 \<rparr>)"
    by (simp add: calculateFaceRect_def rect_scan_present)
next
  assume h: "lms \<noteq> [] \<and> (\<forall>l \<in> set lms. 0 \<le> lm_x l \<and> lm_x l \<le> 1 \<and> 0 \<le> lm_y l \<and> lm_y l \<le> 1)"
  then have ne: "lm_x ` set lms \<noteq> {}" "lm_y ` set lms \<noteq> {}"
    by simp_all
  have minx: "Min (insert 1 (lm_x ` set lms)) = Min (lm_x ` set lms)"
    using h ne by (intro Min_insert_upper) auto
  have miny: "Min (insert 1 (lm_y ` set lms)) = Min (lm_y ` set lms)"
    using h ne by (intro Min_insert_upper) auto
  have maxx: "Max (insert 0 (lm_x ` set lms)) = Max (lm_x ` set lms)"
    using h ne by (intro Max_insert_lower) auto
  have maxy: "Max (insert 0 (lm_y ` set lms)) = Max (lm_y ` set lms)"
    using h ne by (intro Max_insert_lower) auto
  have "rect_scan (map Some lms) (1, 1, 0, 0)
        = Inr (Min (lm_x ` set lms), Min (lm_y ` set lms), Max (lm_x ` set lms), Max (lm_y ` set lms))"
    by (simp only: rect_scan_present minx miny maxx maxy)
  then show "calculateFaceRect (Some (map Some lms))
      = Inr (Some \<lparr> rect_x = Min (lm_x ` set lms),
                     rect_y = Min (lm_y ` set lms),
                     rect_width = Max (lm_x ` set lms) - Min (lm_x ` set lms),
                     rect_height = Max (lm_y ` set lms) - Min (lm_y ` set lms),
                     rect_centerX = (Min (lm_x ` set lms) + Max (lm_x ` set lms)) / 2,
                     rect_centerY = (Min (lm_y ` set lms) + Max (lm_y ` set lms)) / 2 \<rparr>)"
    using h by (simp add: calculateFaceRect_def)
qed

text \<open>The corners of the unit square and one interior point.\<close>

theorem C2_calculateFaceRect_bounds_witness:
  "[\<lparr> lm_x = 0, lm_y = 0, lm_z = None \<rparr>, \<lparr> lm_x = 1, lm_y = 0, lm_z = None \<rparr>,
    \<lparr> lm_x = 0, lm_y = 1, lm_z = None \<rparr>, \<lparr> lm_x = 1, lm_y = 1, lm_z = None \<rparr>,
    \<lparr> lm_x = 1/2, lm_y = 1/4, lm_z = None \<rparr>] \<noteq> [] \<and>
   calculateFaceRect (Some (map Some
     [\<lparr> lm_x = 0, lm_y = 0, lm_z = None \<rparr>, \<lparr> lm_x = 1, lm_y = 0, lm_z = None \<rparr>,
      \<lparr> lm_x = 0, lm_y = 1, lm_z = None \<rparr>, \<lparr> lm_x = 1, lm_y = 1, lm_z = None \<rparr>,
      \<lparr> lm_x = 1/2, lm_y = 1/4, lm_z = None \<rparr>]))
   = Inr (Some \<lparr> rect_x = 0, rect_y = 0, rect_width = 1, rect_height = 1,
                  rect_centerX = 1/2, rect_centerY = 1/2 \<rparr>)"
  using C2_calculateFaceRect_bounds
    [of "[\<lparr> lm_x = 0, lm_y = 0, lm_z = None \<rparr>, \<lparr> lm_x = 1, lm_y = 0, lm_z = None \<rparr>,
          \<lparr> lm_x = 0, lm_y = 1, lm_z = None \<rparr>, \<lparr> lm_x = 1, lm_y = 1, lm_z = None \<rparr>,
          \<lparr> lm_x = 1/2, lm_y = 1/4, lm_z = None \<rparr>]", THEN conjunct2, THEN conjunct2]
  by simp

subsection \<open>Head pose\<close>

lemma atan2_zero_nonneg: "0 \<le> x \<Longrightarrow> atan2 0 x = 0"
  by (simp add: atan2_def)

lemma atan2_zero_neg: "x < 0 \<Longrightarrow> atan2 0 x = pi"
  by (simp add: atan2_def)

lemma atan2_diag: "0 < x \<Longrightarrow> atan2 x x = pi / 4"
  by (simp add: atan2_def arctan_one)

text \<open>
  \<open>atan2 y x\<close> is the angle of the point \<open>(x, y)\<close>: it lies in \<open>(-\<pi>, \<pi>]\<close>, and away
  from the origin its cosine and sine are \<open>x / r\<close> and \<open>y / r\<close> for \<open>r\<close> the distance of
  the point from the origin.
\<close>

lemma sqrt_quotient:
  fixes x y :: real
  assumes "x \<noteq> 0"
  shows "sqrt (1 + (y / x)\<^sup>2) = sqrt (x\<^sup>2 + y\<^sup>2) / \<bar>x\<bar>"
proof -
  have "1 + (y / x)\<^sup>2 = (x\<^sup>2 + y\<^sup>2) / x\<^sup>2"
    using assms by (simp add: field_simps power2_eq_square)
  then have "sqrt (1 + (y / x)\<^sup>2) = sqrt (x\<^sup>2 + y\<^sup>2) / sqrt (x\<^sup>2)"
    by (simp only: real_sqrt_divide)
  then show ?thesis
    by (simp only: real_sqrt_abs)
qed

lemma cos_sin_arctan_quotient:
  fixes x y :: real
  assumes "x \<noteq> 0"
  shows "cos (arctan (y / x)) = \<bar>x\<bar> / sqrt (x\<^sup>2 + y\<^sup>2)"
    and "sin (arctan (y / x)) = (y / x) * \<bar>x\<bar> / sqrt (x\<^sup>2 + y\<^sup>2)"
  using assms by (simp_all add: cos_arctan sin_arctan sqrt_quotient)

lemma atan2_range: "- pi < atan2 y x \<and> atan2 y x \<le> pi"
proof -
  have bounds: "- (pi / 2) < arctan (y / x)" "arctan (y / x) < pi / 2"
    by (rule arctan_lbound, rule arctan_ubound)
  have pos: "0 < pi"
    by (rule pi_gt_zero)
  consider "0 < x" | "x < 0" "0 \<le> y" | "x < 0" "y < 0" | "x = 0"
    by linarith
  then show ?thesis
  proof cases
    case 1
    then show ?thesis using bounds pos by (simp add: atan2_def)
  next
    case 2
    then have "y / x \<le> 0"
      by (simp add: divide_nonneg_neg)
    then have "arctan (y / x) \<le> 0"
      by (simp add: arctan_le_zero_iff)
    then show ?thesis using 2 bounds pos by (simp add: atan2_def)
  next
    case 3
    then have "0 < y / x"
      by (simp add: divide_neg_neg)
    then have "0 < arctan (y / x)"
      by (simp add: zero_less_arctan_iff)
    then show ?thesis using 3 bounds pos by (simp add: atan2_def)
  next
    case 4
    show ?thesis
      unfolding atan2_def using 4 pos by (auto; linarith)
  qed
qed

lemma atan2_cos_sin:
  assumes "x \<noteq> 0 \<or> y \<noteq> 0"
  shows "cos (atan2 y x) = x / sqrt (x\<^sup>2 + y\<^sup>2) \<and> sin (atan2 y x) = y / sqrt (x\<^sup>2 + y\<^sup>2)"
proof -
  consider "0 < x" | "x < 0" "0 \<le> y" | "x < 0" "y < 0" | "x = 0" "0 < y" | "x = 0" "y < 0"
    using assms by linarith
  then show ?thesis
  proof cases
    case 1
    then show ?thesis
      using cos_sin_arctan_quotient [of x y] by (simp add: atan2_def)
  next
    case 2
    then show ?thesis
      using cos_sin_arctan_quotient [of x y] by (simp add: atan2_def)
  next
    case 3
    then show ?thesis
      using cos_sin_arctan_quotient [of x y] by (simp add: atan2_def)
  next
    case 4
    then show ?thesis
      by (simp add: atan2_def)
  next
    case 5
    then show ?thesis
      by (simp add: atan2_def)
  qed
qed

text \<open>
  Claim C8 says that level eyes give \<open>roll = 0\<close>. With the right eye centre to the left
  of the left one, \<open>\<Delta>x\<close> is negative and \<^verbatim>\<open>Math.atan2(0, \<Delta>x)\<close> is \<open>\<pi>\<close>.
\<close>

theorem C8_level_eyes_counterexample:
  "lm_y \<lparr> lm_x = 3/5, lm_y = 1/2, lm_z = None \<rparr> = lm_y \<lparr> lm_x = 2/5, lm_y = 1/2, lm_z = None \<rparr> \<and>
   roll (calculateHeadPose
          \<lparr> leftEyeCenter = Some \<lparr> lm_x = 3/5, lm_y = 1/2, lm_z = None \<rparr>,
            rightEyeCenter = Some \<lparr> lm_x = 2/5, lm_y = 1/2, lm_z = None \<rparr>,
            noseTip = Some \<lparr> lm_x = 1/2, lm_y = 3/5, lm_z = None \<rparr> \<rparr>) = pi \<and>
   roll (calculateHeadPose
          \<lparr> leftEyeCenter = Some \<lparr> lm_x = 3/5, lm_y = 1/2, lm_z = None \<rparr>,
            rightEyeCenter = Some \<lparr> lm_x = 2/5, lm_y = 1/2, lm_z = None \<rparr>,
            noseTip = Some \<lparr> lm_x = 1/2, lm_y = 3/5, lm_z = None \<rparr> \<rparr>) \<noteq> 0"
  by (simp add: calculateHeadPose_def atan2_def)

text \<open>
  Claim C8, amended. \<^verbatim>\<open>calculateHeadPose\<close> returns \<open>{pitch: 0, yaw: 0, roll: 0}\<close> when
  the left eye centre, the right eye centre or the nose tip is absent. Otherwise
  \<open>roll = atan2(\<Delta>y, \<Delta>x)\<close> of the eye centres, \<open>yaw = atan2(nose.x - eyeCenter.x, 0.1)\<close>
  and \<open>pitch = atan2(nose.y - eyeCenter.y, 0.1)\<close>. Level eyes give \<open>roll = 0\<close> when the
  right eye centre is not to the left of the left one, and \<open>roll = \<pi>\<close> when it is; a nose
  at the eye centre's x gives \<open>yaw = 0\<close>.
\<close>

theorem C8_calculateHeadPose:
  "(leftEyeCenter k = None \<or> rightEyeCenter k = None \<or> noseTip k = None \<longrightarrow>
      calculateHeadPose k = \<lparr> pitch = 0, yaw = 0, roll = 0 \<rparr>) \<and>
   (leftEyeCenter k = Some l \<and> rightEyeCenter k = Some r \<and> noseTip k = Some n \<longrightarrow>
      calculateHeadPose k
        = \<lparr> pitch = atan2 (lm_y n - (lm_y l + lm_y r) / 2) 0.1,
            yaw = atan2 (lm_x n - (lm_x l + lm_x r) / 2) 0.1,
            roll = atan2 (lm_y r - lm_y l) (lm_x r - lm_x l) \<rparr> \<and>
      (lm_y l = lm_y r \<and> lm_x l \<le> lm_x r \<longrightarrow> roll (calculateHeadPose k) = 0) \<and>
      (lm_y l = lm_y r \<and> lm_x r < lm_x l \<longrightarrow> roll (calculateHeadPose k) = pi) \<and>
      (lm_x n = (lm_x l + lm_x r) / 2 \<longrightarrow> yaw (calculateHeadPose k) = 0))"
proof (intro conjI impI)
  assume "leftEyeCenter k = None \<or> rightEyeCenter k = None \<or> noseTip k = None"
  then show "calculateHeadPose k = \<lparr> pitch = 0, yaw = 0, roll = 0 \<rparr>"
    by (auto simp: calculateHeadPose_def split: option.splits)
next
  assume h: "leftEyeCenter k = Some l \<and> rightEyeCenter k = Some r \<and> noseTip k = Some n"
  then show eq: "calculateHeadPose k
        = \<lparr> pitch = atan2 (lm_y n - (lm_y l + lm_y r) / 2) 0.1,
            yaw = atan2 (lm_x n - (lm_x l + lm_x r) / 2) 0.1,
            roll = atan2 (lm_y r - lm_y l) (lm_x r - lm_x l) \<rparr>"
    by (simp add: calculateHeadPose_def Let_def)
  {
    assume "lm_y l = lm_y r \<and> lm_x l \<le> lm_x r"
    then show "roll (calculateHeadPose k) = 0"
      by (simp add: eq atan2_zero_nonneg)
  }
  {
    assume "lm_y l = lm_y r \<and> lm_x r < lm_x l"
    then show "roll (calculateHeadPose k) = pi"
      by (simp add: eq atan2_zero_neg)
  }
  {
    assume "lm_x n = (lm_x l + lm_x r) / 2"
    then have "lm_x n - (lm_x l + lm_x r) / 2 = 0"
      by simp
    then show "yaw (calculateHeadPose k) = 0"
      unfolding eq by (simp only: head_pose.simps atan2_zero_nonneg [of "0.1"])
  }
qed

text \<open>
  Level eyes at \<open>(0.4, 0.5)\<close> and \<open>(0.6, 0.5)\<close>, the nose at \<open>(0.5, 0.6)\<close>; and the same
  with the nose tip absent.
\<close>

theorem C8_calculateHeadPose_witness:
  "calculateHeadPose
     \<lparr> leftEyeCenter = Some \<lparr> lm_x = 2/5, lm_y = 1/2, lm_z = None \<rparr>,
       rightEyeCenter = Some \<lparr> lm_x = 3/5, lm_y = 1/2, lm_z = None \<rparr>,
       noseTip = Some \<lparr> lm_x = 1/2, lm_y = 3/5, lm_z = None \<rparr> \<rparr>
     = \<lparr> pitch = pi / 4, yaw = 0, roll = 0 \<rparr> \<and>
   calculateHeadPose
     \<lparr> leftEyeCenter = Some \<lparr> lm_x = 2/5, lm_y = 1/2, lm_z = None \<rparr>,
       rightEyeCenter = Some \<lparr> lm_x = 3/5, lm_y = 1/2, lm_z = None \<rparr>,
       noseTip = None \<rparr>
     = \<lparr> pitch = 0, yaw = 0, roll = 0 \<rparr>"
proof -
  let ?l = "\<lparr> lm_x = 2/5, lm_y = 1/2, lm_z = None \<rparr>"
  let ?r = "\<lparr> lm_x = 3/5, lm_y = 1/2, lm_z = None \<rparr>"
  let ?n = "\<lparr> lm_x = 1/2, lm_y = 3/5, lm_z = None \<rparr>"
  have "atan2 (1/10) (1/10) = pi / 4"
    by (rule atan2_diag) simp
  then have full: "calculateHeadPose \<lparr> leftEyeCenter = Some ?l, rightEyeCenter = Some ?r, noseTip = Some ?n \<rparr>
        = \<lparr> pitch = pi / 4, yaw = 0, roll = 0 \<rparr>"
    using C8_calculateHeadPose
      [of "\<lparr> leftEyeCenter = Some ?l, rightEyeCenter = Some ?r, noseTip = Some ?n \<rparr>" ?l ?r ?n]
    by (simp add: atan2_zero_nonneg)
  have absent: "calculateHeadPose \<lparr> leftEyeCenter = Some ?l, rightEyeCenter = Some ?r, noseTip = None \<rparr>
        = \<lparr> pitch = 0, yaw = 0, roll = 0 \<rparr>"
    using C8_calculateHeadPose
      [of "\<lparr> leftEyeCenter = Some ?l, rightEyeCenter = Some ?r, noseTip = None \<rparr>"]
    by simp
  show ?thesis
    using full absent by simp
qed

section \<open>The overlay transform engine\<close>

lemma example_frame_eyes:
  "at_index (example_frame l r) 33 = Some l" "at_index (example_frame l r) 263 = Some r"
  by (simp_all add: example_frame_def at_index_def)

subsection \<open>The 3D-model path\<close>

lemma updateGlasses_model_path:
  assumes "\<not> (currentFrame this = ''png'' \<and> pngImage this \<noteq> None)"
    and "glassesModel this = Some m"
    and "at_index ls 33 = Some l" and "at_index ls 263 = Some r"
  shows "updateGlasses this (Some ls) w h
         = Inr (this\<lparr> glassesModel := Some (m\<lparr>
             position := ((lm_x (normalizedToWorld l w h) + lm_x (normalizedToWorld r w h)) / 2,
                          (lm_y (normalizedToWorld l w h) + lm_y (normalizedToWorld r w h)) / 2
                            + heightOffset this * 0.001,
                          0),
             rotation_z := atan2 (lm_y (normalizedToWorld r w h) - lm_y (normalizedToWorld l w h))
                                 (lm_x (normalizedToWorld r w h) - lm_x (normalizedToWorld l w h)),
             model_scale :=
               (\<bar>lm_x (normalizedToWorld r w h) - lm_x (normalizedToWorld l w h)\<bar> * 0.8
                  * scale this * width this,
                \<bar>lm_x (normalizedToWorld r w h) - lm_x (normalizedToWorld l w h)\<bar> * 0.8
                  * scale this * width this,
                \<bar>lm_x (normalizedToWorld r w h) - lm_x (normalizedToWorld l w h)\<bar> * 0.8
                  * scale this * width this),
             visible := True \<rparr>) \<rparr>)"
proof -
  have "updateGlasses this (Some ls) w h = Inr (updateGlasses_model this (Some ls) w h)"
    using assms(1) by (auto simp: updateGlasses_def split: bool.splits option.splits)
  then show ?thesis
    using assms(2-4) by (simp add: updateGlasses_model_def Let_def)
qed

text \<open>
  Claim C4. \<^verbatim>\<open>normalizedToWorld\<close> maps a landmark to
  \<open>((x - 0.5) * 2 * (canvasWidth / canvasHeight), -(y - 0.5) * 2)\<close>. On the 3D-model
  path, with a model loaded and both eye landmarks present, \<^verbatim>\<open>updateGlasses\<close> sets the
  model's position to the midpoint of the two converted eye points, with
  \<open>heightOffset * 0.001\<close> added to y only and z set to 0, and its rotation about z to
  \<open>atan2(\<Delta>y, \<Delta>x)\<close> of the two converted points. The canvas height is not zero.
\<close>

theorem C4_updateGlasses_position_rotation:
  assumes "\<not> (currentFrame this = ''png'' \<and> pngImage this \<noteq> None)"
    and "glassesModel this = Some m"
    and "at_index ls 33 = Some l" and "at_index ls 263 = Some r"
    and "h \<noteq> 0"
  shows "lm_x (normalizedToWorld l w h) = (lm_x l - 0.5) * 2 * (w / h) \<and>
         lm_y (normalizedToWorld l w h) = - (lm_y l - 0.5) * 2 \<and>
         lm_x (normalizedToWorld r w h) = (lm_x r - 0.5) * 2 * (w / h) \<and>
         lm_y (normalizedToWorld r w h) = - (lm_y r - 0.5) * 2 \<and>
         (\<exists>m'. updateGlasses this (Some ls) w h = Inr (this\<lparr> glassesModel := Some m' \<rparr>) \<and>
            position m' =
              ((lm_x (normalizedToWorld l w h) + lm_x (normalizedToWorld r w h)) / 2,
               (lm_y (normalizedToWorld l w h) + lm_y (normalizedToWorld r w h)) / 2
                 + heightOffset this * 0.001,
               0) \<and>
            rotation_z m' =
              atan2 (lm_y (normalizedToWorld r w h) - lm_y (normalizedToWorld l w h))
                    (lm_x (normalizedToWorld r w h) - lm_x (normalizedToWorld l w h)))"
proof -
  have conv: "lm_x (normalizedToWorld p w h) = (lm_x p - 0.5) * 2 * (w / h) \<and>
              lm_y (normalizedToWorld p w h) = - (lm_y p - 0.5) * 2" for p
    by (simp add: normalizedToWorld_def Let_def)
  have "\<exists>m'. updateGlasses this (Some ls) w h = Inr (this\<lparr> glassesModel := Some m' \<rparr>) \<and>
            position m' =
              ((lm_x (normalizedToWorld l w h) + lm_x (normalizedToWorld r w h)) / 2,
               (lm_y (normalizedToWorld l w h) + lm_y (normalizedToWorld r w h)) / 2
                 + heightOffset this * 0.001,
               0) \<and>
            rotation_z m' =
              atan2 (lm_y (normalizedToWorld r w h) - lm_y (normalizedToWorld l w h))
                    (lm_x (normalizedToWorld r w h) - lm_x (normalizedToWorld l w h))"
    unfolding updateGlasses_model_path [OF assms(1-4)]
    by (intro exI conjI) (rule refl, simp_all)
  with conv [of l] conv [of r] show ?thesis
    by blast
qed


text \<open>
  Eyes at \<open>(0.4, 0.5)\<close> and \<open>(0.6, 0.5)\<close> in a 200 by 100 viewport, \<open>heightOffset = 10\<close>:
  the converted points are \<open>(-0.4, 0)\<close> and \<open>(0.4, 0)\<close>.
\<close>

theorem C4_updateGlasses_position_rotation_witness:
  "\<not> (currentFrame (example_model_renderer 1 1 10) = ''png'' \<and>
       pngImage (example_model_renderer 1 1 10) \<noteq> None) \<and>
   glassesModel (example_model_renderer 1 1 10) \<noteq> None \<and>
   at_index (example_frame \<lparr> lm_x = 2/5, lm_y = 1/2, lm_z = None \<rparr>
                           \<lparr> lm_x = 3/5, lm_y = 1/2, lm_z = None \<rparr>) 33 \<noteq> None \<and>
   at_index (example_frame \<lparr> lm_x = 2/5, lm_y = 1/2, lm_z = None \<rparr>
                           \<lparr> lm_x = 3/5, lm_y = 1/2, lm_z = None \<rparr>) 263 \<noteq> None \<and>
   (100 :: real) \<noteq> 0 \<and>
   (\<exists>m'. updateGlasses (example_model_renderer 1 1 10)
            (Some (example_frame \<lparr> lm_x = 2/5, lm_y = 1/2, lm_z = None \<rparr>
                                 \<lparr> lm_x = 3/5, lm_y = 1/2, lm_z = None \<rparr>)) 200 100
          = Inr ((example_model_renderer 1 1 10)\<lparr> glassesModel := Some m' \<rparr>) \<and>
        position m' = (0, 1/100, 0) \<and> rotation_z m' = 0)"
proof -
  let ?l = "\<lparr> lm_x = 2/5, lm_y = 1/2, lm_z = None \<rparr>"
  let ?r = "\<lparr> lm_x = 3/5, lm_y = 1/2, lm_z = None \<rparr>"
  let ?R = "example_model_renderer 1 1 10"
  let ?m = "\<lparr> position = (0, 0, 0), rotation_z = 0,
              model_scale = (3/20, 3/20, 3/20), visible = True \<rparr>"
  have path: "\<not> (currentFrame ?R = ''png'' \<and> pngImage ?R \<noteq> None)"
    and model: "glassesModel ?R = Some ?m"
    by (simp_all add: example_model_renderer_def)
  have nz: "(100 :: real) \<noteq> 0"
    by simp
  note inst = C4_updateGlasses_position_rotation
    [OF path model example_frame_eyes(1) [of ?l ?r] example_frame_eyes(2) [of ?l ?r] nz, of 200]
  have lx: "lm_x (normalizedToWorld ?l 200 100) = - 2/5"
    and ly: "lm_y (normalizedToWorld ?l 200 100) = 0"
    and rx: "lm_x (normalizedToWorld ?r 200 100) = 2/5"
    and ry: "lm_y (normalizedToWorld ?r 200 100) = 0"
    using inst by simp_all
  have ho: "heightOffset ?R = 10"
    by (simp add: example_model_renderer_def)
  from inst obtain m' where
    upd: "updateGlasses ?R (Some (example_frame ?l ?r)) 200 100
          = Inr (?R\<lparr> glassesModel := Some m' \<rparr>)"
    and pos: "position m' =
              ((lm_x (normalizedToWorld ?l 200 100) + lm_x (normalizedToWorld ?r 200 100)) / 2,
               (lm_y (normalizedToWorld ?l 200 100) + lm_y (normalizedToWorld ?r 200 100)) / 2
                 + heightOffset ?R * 0.001,
               0)"
    and rot: "rotation_z m' =
              atan2 (lm_y (normalizedToWorld ?r 200 100) - lm_y (normalizedToWorld ?l 200 100))
                    (lm_x (normalizedToWorld ?r 200 100) - lm_x (normalizedToWorld ?l 200 100))"
    by blast
  have "position m' = (0, 1/100, 0)"
    unfolding pos lx ly rx ry ho by simp
  moreover have "rotation_z m' = 0"
    unfolding rot lx ly rx ry by (simp add: atan2_zero_nonneg)
  ultimately show ?thesis
    using path model upd example_frame_eyes [of ?l ?r] by auto
qed

subsection \<open>The scale of the 3D-model path\<close>

text \<open>
  The scale is computed from the horizontal separation of the converted eye points
  alone: \<^verbatim>\<open>Math.abs(rightEyeWorld.x - leftEyeWorld.x)\<close>. It is the distance between the
  two points exactly when they are level.
\<close>

lemma updateGlasses_model_scale:
  assumes "\<not> (currentFrame this = ''png'' \<and> pngImage this \<noteq> None)"
    and "glassesModel this = Some m"
    and "at_index ls 33 = Some l" and "at_index ls 263 = Some r"
  shows "\<exists>m'. updateGlasses this (Some ls) w h = Inr (this\<lparr> glassesModel := Some m' \<rparr>) \<and>
           model_scale m' =
             (\<bar>lm_x (normalizedToWorld r w h) - lm_x (normalizedToWorld l w h)\<bar> * 0.8
                * scale this * width this,
              \<bar>lm_x (normalizedToWorld r w h) - lm_x (normalizedToWorld l w h)\<bar> * 0.8
                * scale this * width this,
              \<bar>lm_x (normalizedToWorld r w h) - lm_x (normalizedToWorld l w h)\<bar> * 0.8
                * scale this * width this)"
  unfolding updateGlasses_model_path [OF assms]
  by (intro exI conjI) (rule refl, simp)

lemma level_eyes_distance:
  assumes "lm_y l = lm_y r"
  shows "sqrt ((lm_x (normalizedToWorld r w h) - lm_x (normalizedToWorld l w h))\<^sup>2
               + (lm_y (normalizedToWorld r w h) - lm_y (normalizedToWorld l w h))\<^sup>2)
         = \<bar>lm_x (normalizedToWorld r w h) - lm_x (normalizedToWorld l w h)\<bar>"
  using assms by (simp add: normalizedToWorld_def Let_def)

text \<open>
  The scenario of the specification: eyes at \<open>(0.4, 0.5)\<close> and \<open>(0.6, 0.5)\<close>, a 100 by
  100 viewport, \<open>scale = 1\<close>, \<open>width = 1\<close>, \<open>heightOffset = 0\<close>. The converted points are
  \<open>(-0.2, 0)\<close> and \<open>(0.2, 0)\<close>, at distance 0.4: rotation 0, scale \<open>0.4 * 0.8\<close>.
\<close>

lemma updateGlasses_level_scenario:
  "updateGlasses (example_model_renderer 1 1 0)
     (Some (example_frame \<lparr> lm_x = 2/5, lm_y = 1/2, lm_z = None \<rparr>
                          \<lparr> lm_x = 3/5, lm_y = 1/2, lm_z = None \<rparr>)) 100 100
   = Inr ((example_model_renderer 1 1 0)\<lparr> glassesModel :=
            Some \<lparr> position = (0, 0, 0), rotation_z = 0,
                   model_scale = (8/25, 8/25, 8/25), visible = True \<rparr> \<rparr>)"
proof -
  let ?l = "\<lparr> lm_x = 2/5, lm_y = 1/2, lm_z = None \<rparr>"
  let ?r = "\<lparr> lm_x = 3/5, lm_y = 1/2, lm_z = None \<rparr>"
  let ?R = "example_model_renderer 1 1 0"
  have path: "\<not> (currentFrame ?R = ''png'' \<and> pngImage ?R \<noteq> None)"
    and model: "glassesModel ?R = Some \<lparr> position = (0, 0, 0), rotation_z = 0,
                                         model_scale = (3/20, 3/20, 3/20), visible = True \<rparr>"
    by (simp_all add: example_model_renderer_def)
  have world: "normalizedToWorld ?l 100 100 = \<lparr> lm_x = - 1/5, lm_y = 0, lm_z = Some 0 \<rparr>"
    "normalizedToWorld ?r 100 100 = \<lparr> lm_x = 1/5, lm_y = 0, lm_z = Some 0 \<rparr>"
    by (simp_all add: normalizedToWorld_def Let_def or_zero_def)
  have params: "scale ?R = 1" "width ?R = 1" "heightOffset ?R = 0"
    by (simp_all add: example_model_renderer_def)
  show ?thesis
    unfolding updateGlasses_model_path [OF path model example_frame_eyes] world params
    by (simp add: atan2_zero_nonneg)
qed

text \<open>
  Claim C1 at tilted eyes: \<open>(0.4, 0.4)\<close> and \<open>(0.6, 0.6)\<close> in the same viewport, with the
  same parameters. The converted points are \<open>(-0.2, 0.2)\<close> and \<open>(0.2, -0.2)\<close>; their
  distance is \<open>sqrt 0.32\<close>, but the scale set on the model is \<open>0.4 * 0.8\<close>, the
  horizontal separation times the base factor.
\<close>

theorem C1_scale_ignores_vertical_separation:
  "updateGlasses (example_model_renderer 1 1 0)
     (Some (example_frame \<lparr> lm_x = 2/5, lm_y = 2/5, lm_z = None \<rparr>
                          \<lparr> lm_x = 3/5, lm_y = 3/5, lm_z = None \<rparr>)) 100 100
   = Inr ((example_model_renderer 1 1 0)\<lparr> glassesModel :=
            Some \<lparr> position = (0, 0, 0), rotation_z = - pi / 4,
                   model_scale = (8/25, 8/25, 8/25), visible = True \<rparr> \<rparr>) \<and>
   sqrt ((lm_x (normalizedToWorld \<lparr> lm_x = 3/5, lm_y = 3/5, lm_z = None \<rparr> 100 100)
           - lm_x (normalizedToWorld \<lparr> lm_x = 2/5, lm_y = 2/5, lm_z = None \<rparr> 100 100))\<^sup>2
         + (lm_y (normalizedToWorld \<lparr> lm_x = 3/5, lm_y = 3/5, lm_z = None \<rparr> 100 100)
           - lm_y (normalizedToWorld \<lparr> lm_x = 2/5, lm_y = 2/5, lm_z = None \<rparr> 100 100))\<^sup>2)
     * 0.8 * scale (example_model_renderer 1 1 0) * width (example_model_renderer 1 1 0)
   \<noteq> 8/25"
proof -
  let ?l = "\<lparr> lm_x = 2/5, lm_y = 2/5, lm_z = None \<rparr>"
  let ?r = "\<lparr> lm_x = 3/5, lm_y = 3/5, lm_z = None \<rparr>"
  let ?R = "example_model_renderer 1 1 0"
  have path: "\<not> (currentFrame ?R = ''png'' \<and> pngImage ?R \<noteq> None)"
    and model: "glassesModel ?R = Some \<lparr> position = (0, 0, 0), rotation_z = 0,
                                         model_scale = (3/20, 3/20, 3/20), visible = True \<rparr>"
    by (simp_all add: example_model_renderer_def)
  have world: "normalizedToWorld ?l 100 100 = \<lparr> lm_x = - 1/5, lm_y = 1/5, lm_z = Some 0 \<rparr>"
    "normalizedToWorld ?r 100 100 = \<lparr> lm_x = 1/5, lm_y = - 1/5, lm_z = Some 0 \<rparr>"
    by (simp_all add: normalizedToWorld_def Let_def or_zero_def)
  have params: "scale ?R = 1" "width ?R = 1" "heightOffset ?R = 0"
    by (simp_all add: example_model_renderer_def)
  have angle: "atan2 (- 2/5) (2/5) = - pi / 4"
    by (simp add: atan2_def arctan_minus arctan_one)
  have code: "updateGlasses ?R (Some (example_frame ?l ?r)) 100 100
      = Inr (?R\<lparr> glassesModel :=
            Some \<lparr> position = (0, 0, 0), rotation_z = - pi / 4,
                   model_scale = (8/25, 8/25, 8/25), visible = True \<rparr> \<rparr>)"
    unfolding updateGlasses_model_path [OF path model example_frame_eyes] world params
    using angle by simp
  define d :: real where "d = sqrt ((2/5)\<^sup>2 + (- 2/5)\<^sup>2)"
  have sq: "d\<^sup>2 = (2/5)\<^sup>2 + (- 2/5)\<^sup>2"
    unfolding d_def by (rule real_sqrt_pow2) simp
  have "d * (4/5) \<noteq> 8/25"
  proof
    assume "d * (4/5) = 8/25"
    then have "d = 2/5"
      by simp
    with sq show False
      by (simp add: power2_eq_square)
  qed
  then have "sqrt ((lm_x (normalizedToWorld ?r 100 100) - lm_x (normalizedToWorld ?l 100 100))\<^sup>2
         + (lm_y (normalizedToWorld ?r 100 100) - lm_y (normalizedToWorld ?l 100 100))\<^sup>2)
     * 0.8 * scale ?R * width ?R \<noteq> 8/25"
    unfolding world params d_def by simp
  with code show ?thesis
    by blast
qed


subsection \<open>The PNG path\<close>

lemma updateGlasses_png_path:
  assumes "currentFrame this = ''png''" and "pngImage this = Some png"
    and "at_index ls 33 = Some l" and "at_index ls 263 = Some r"
  shows "updateGlasses this (Some ls) w h
         = Inr (this\<lparr> canvas_calls := canvas_calls this @
             [ClearRect 0 0 w h,
              DrawImage
                ((lm_x (normalizedToWorld l w h) + lm_x (normalizedToWorld r w h)) / 2 + w / 2
                   - sqrt ((lm_x (normalizedToWorld r w h) - lm_x (normalizedToWorld l w h))\<^sup>2
                           + (lm_y (normalizedToWorld r w h) - lm_y (normalizedToWorld l w h))\<^sup>2)
                     * 2.5 * scale this / 2)
                ((lm_y (normalizedToWorld l w h) + lm_y (normalizedToWorld r w h)) / 2 + h / 2
                   - (img_height png / img_width png)
                     * (sqrt ((lm_x (normalizedToWorld r w h) - lm_x (normalizedToWorld l w h))\<^sup>2
                              + (lm_y (normalizedToWorld r w h) - lm_y (normalizedToWorld l w h))\<^sup>2)
                        * 2.5 * scale this) / 2)
                (sqrt ((lm_x (normalizedToWorld r w h) - lm_x (normalizedToWorld l w h))\<^sup>2
                       + (lm_y (normalizedToWorld r w h) - lm_y (normalizedToWorld l w h))\<^sup>2)
                   * 2.5 * scale this)
                ((img_height png / img_width png)
                   * (sqrt ((lm_x (normalizedToWorld r w h) - lm_x (normalizedToWorld l w h))\<^sup>2
                            + (lm_y (normalizedToWorld r w h) - lm_y (normalizedToWorld l w h))\<^sup>2)
                      * 2.5 * scale this))] \<rparr>)"
  using assms by (simp add: updateGlasses_def updateGlasses_png_def Let_def)

text \<open>
  Claim C5 at eyes \<open>(0.1, 0.2)\<close> and \<open>(0.3, 0.2)\<close>, a 100 by 100 canvas, \<open>scale = 1\<close> and
  a 200 by 100 image. The converted points are \<open>(-0.8, 0.6)\<close> and \<open>(-0.4, 0.6)\<close>, at
  distance 0.4, so the rectangle is 1 wide and 0.5 high. Its centre is the converted
  midpoint \<open>(-0.6, 0.6)\<close> moved by half the canvas, \<open>(49.4, 50.6)\<close>; the eye midpoint in
  pixels is \<open>(20, 20)\<close>. The canvas receives \<^verbatim>\<open>clearRect\<close> and \<^verbatim>\<open>drawImage\<close> and no
  other call.
\<close>

theorem C5_png_rectangle_not_at_eye_midpoint:
  "updateGlasses (example_png_renderer 1 \<lparr> img_width = 200, img_height = 100 \<rparr>)
     (Some (example_frame \<lparr> lm_x = 1/10, lm_y = 1/5, lm_z = None \<rparr>
                          \<lparr> lm_x = 3/10, lm_y = 1/5, lm_z = None \<rparr>)) 100 100
   = Inr ((example_png_renderer 1 \<lparr> img_width = 200, img_height = 100 \<rparr>)
            \<lparr> canvas_calls :=
                [ClearRect 0 0 100 100,
                 DrawImage (247/5 - 1/2) (253/5 - 1/4) 1 (1/2)] \<rparr>) \<and>
   (247/5, 253/5) \<noteq> ((1/10 + 3/10) / 2 * 100, (1/5 + 1/5) / 2 * (100 :: real))"
proof -
  let ?l = "\<lparr> lm_x = 1/10, lm_y = 1/5, lm_z = None \<rparr>"
  let ?r = "\<lparr> lm_x = 3/10, lm_y = 1/5, lm_z = None \<rparr>"
  let ?png = "\<lparr> img_width = 200, img_height = 100 \<rparr>"
  let ?R = "example_png_renderer 1 ?png"
  have path: "currentFrame ?R = ''png''" "pngImage ?R = Some ?png"
    by (simp_all add: example_png_renderer_def)
  have world: "normalizedToWorld ?l 100 100 = \<lparr> lm_x = - 4/5, lm_y = 3/5, lm_z = Some 0 \<rparr>"
    "normalizedToWorld ?r 100 100 = \<lparr> lm_x = - 2/5, lm_y = 3/5, lm_z = Some 0 \<rparr>"
    by (simp_all add: normalizedToWorld_def Let_def or_zero_def)
  have dist: "sqrt ((- 2/5 - (- 4/5))\<^sup>2 + (3/5 - 3/5)\<^sup>2) = (2/5 :: real)"
  proof -
    have "(- 2/5 - (- 4/5))\<^sup>2 + (3/5 - 3/5)\<^sup>2 = ((2/5)\<^sup>2 :: real)"
      by (simp add: power2_eq_square)
    then show ?thesis
      by (simp only: real_sqrt_abs)
  qed
  have params: "scale ?R = 1" "canvas_calls ?R = []"
    by (simp_all add: example_png_renderer_def)
  have "updateGlasses ?R (Some (example_frame ?l ?r)) 100 100
        = Inr (?R\<lparr> canvas_calls :=
                [ClearRect 0 0 100 100,
                 DrawImage (247/5 - 1/2) (253/5 - 1/4) 1 (1/2)] \<rparr>)"
    unfolding updateGlasses_png_path [OF path example_frame_eyes] world params
    by (simp only: landmark.simps png_image.simps dist) simp
  then show ?thesis
    by simp
qed


subsection \<open>No detection\<close>

text \<open>
  On the PNG path \<^verbatim>\<open>landmarks[33]\<close> is read without a guard: \<^verbatim>\<open>null\<close> landmarks throw.
  \<^verbatim>\<open>onFaceDetected\<close> never passes \<^verbatim>\<open>null\<close>.
\<close>

lemma updateGlasses_png_null_landmarks:
  "currentFrame this = ''png'' \<Longrightarrow> pngImage this = Some png
   \<Longrightarrow> updateGlasses this None w h = Inl TypeError"
  by (simp add: updateGlasses_def updateGlasses_png_def)

lemma updateGlasses_model_null_landmarks:
  "\<not> (currentFrame this = ''png'' \<and> pngImage this \<noteq> None)
   \<Longrightarrow> updateGlasses this None w h = Inr this"
  by (auto simp: updateGlasses_def updateGlasses_model_def split: bool.splits option.splits)

text \<open>
  Claim C6. When the frame has no landmark at index 33 or none at index 263,
  \<^verbatim>\<open>updateGlasses\<close> returns without touching the model: on the 3D-model path the
  renderer is unchanged, so the overlay stays at its last placement; on the PNG path the
  canvas is cleared and nothing is drawn, so the overlay is hidden. A detection cycle
  with \<^verbatim>\<open>null\<close> results makes \<^verbatim>\<open>onFaceDetected\<close> return at once, without error and
  with the application state unchanged, whatever that state is.
\<close>

theorem C6_absent_eye_keeps_placement:
  "(at_index ls 33 = None \<or> at_index ls 263 = None \<longrightarrow>
      updateGlasses this (Some ls) w h
      = Inr (if currentFrame this = ''png'' \<and> pngImage this \<noteq> None
             then this\<lparr> canvas_calls := canvas_calls this @ [ClearRect 0 0 w h] \<rparr>
             else this)) \<and>
   onFaceDetected app None = Inr app"
proof (intro conjI impI)
  assume absent: "at_index ls 33 = None \<or> at_index ls 263 = None"
  show "updateGlasses this (Some ls) w h
      = Inr (if currentFrame this = ''png'' \<and> pngImage this \<noteq> None
             then this\<lparr> canvas_calls := canvas_calls this @ [ClearRect 0 0 w h] \<rparr>
             else this)"
  proof (cases "currentFrame this = ''png'' \<and> pngImage this \<noteq> None")
    case True
    then obtain png where "pngImage this = Some png"
      by auto
    with True absent show ?thesis
      by (auto simp: updateGlasses_def updateGlasses_png_def Let_def split: option.splits)
  next
    case False
    then have "updateGlasses this (Some ls) w h = Inr (updateGlasses_model this (Some ls) w h)"
      by (auto simp: updateGlasses_def split: bool.splits option.splits)
    moreover have "updateGlasses_model this (Some ls) w h = this"
      using absent by (auto simp: updateGlasses_model_def split: option.splits)
    ultimately show ?thesis
      using False by simp
  qed
next
  show "onFaceDetected app None = Inr app"
    by (simp add: onFaceDetected_def)
qed

text \<open>
  A frame of 100 landmarks has no entry 263. The model renderer comes back as it was;
  the PNG renderer comes back with the canvas cleared.
\<close>

theorem C6_absent_eye_keeps_placement_witness:
  "at_index (replicate 100 (Some \<lparr> lm_x = 1/2, lm_y = 1/2, lm_z = Some 0 \<rparr>)) 263 = None \<and>
   updateGlasses (example_model_renderer 1 1 0)
     (Some (replicate 100 (Some \<lparr> lm_x = 1/2, lm_y = 1/2, lm_z = Some 0 \<rparr>))) 100 100
   = Inr (example_model_renderer 1 1 0) \<and>
   updateGlasses (example_png_renderer 1 \<lparr> img_width = 200, img_height = 100 \<rparr>)
     (Some (replicate 100 (Some \<lparr> lm_x = 1/2, lm_y = 1/2, lm_z = Some 0 \<rparr>))) 100 100
   = Inr ((example_png_renderer 1 \<lparr> img_width = 200, img_height = 100 \<rparr>)
            \<lparr> canvas_calls := [ClearRect 0 0 100 100] \<rparr>)"
proof -
  let ?ls = "replicate 100 (Some \<lparr> lm_x = 1/2, lm_y = 1/2, lm_z = Some (0::real) \<rparr>)"
  let ?M = "example_model_renderer 1 1 0"
  let ?P = "example_png_renderer 1 \<lparr> img_width = 200, img_height = 100 \<rparr>"
  have absent: "at_index ?ls 263 = None"
    by (simp add: at_index_def)
  have m: "updateGlasses ?M (Some ?ls) 100 100 = Inr ?M"
    using C6_absent_eye_keeps_placement [of ?ls ?M 100 100] absent
    by (simp add: example_model_renderer_def)
  have p: "updateGlasses ?P (Some ?ls) 100 100 = Inr (?P\<lparr> canvas_calls := [ClearRect 0 0 100 100] \<rparr>)"
    using C6_absent_eye_keeps_placement [of ?ls ?P 100 100] absent
    by (simp add: example_png_renderer_def)
  show ?thesis
    using absent m p by simp
qed

end
